theory Spec2Isabelle
  imports Main "HOL-Library.Monad_Syntax" "HOL-Library.Word"
begin

unbundle bit_operations_syntax

section \<open>extrace: a shallow embedding of both program revisions\<close>

text \<open>
  The repository holds two revisions of one C program: \<^verbatim>\<open>src/extrace.c\<close> (exec events
  only, handler \<^verbatim>\<open>handle_msg\<close>) and \<^verbatim>\<open>src/unnamed/part_000\<close> (adds the table
  \<^verbatim>\<open>pid_db\<close>, option \<^verbatim>\<open>-t\<close>, \<^verbatim>\<open>handle_exit\<close> and \<^verbatim>\<open>handle_exec\<close>).
  C strings are \<open>string\<close> (the bytes before the terminating NUL), \<^verbatim>\<open>pid_t\<close> and \<^verbatim>\<open>int\<close>
  are \<open>int\<close> with the conversions written out where a value can leave the range (the
  cut to 32 bits in \<^verbatim>\<open>atoi\<close>, the conversion to \<^verbatim>\<open>uintptr_t\<close> in \<^verbatim>\<open>EV_SET\<close>; PIDs
  and depths from the kernel stay far below \<open>2 ^ 31\<close>), the answers of the kernel (kvm,
  sysctl, kevent, fork) are inputs of the
  functions, and a result \<open>None\<close> stands for "no defined result": a recursion that does
  not end, or behaviour the C standard leaves undefined.
\<close>

subsection \<open>Output streams\<close>

text \<open>
  What the program writes to \<^verbatim>\<open>output\<close>, one item per conversion: literal characters
  (\<^verbatim>\<open>putc\<close>, format text, \<^verbatim>\<open>%s\<close>), \<^verbatim>\<open>%*s\<close> of the empty string with its width, \<^verbatim>\<open>%d\<close>,
  the signal name \<^verbatim>\<open>sys_signame[n]\<close>, and \<^verbatim>\<open>%.3f\<close> of a \<^verbatim>\<open>struct timeval\<close> in seconds.
\<close>

record timeval =
  tv_sec :: int
  tv_usec :: int

datatype out_item = Chars string | Pad int | Dec int | Signame int | Secs timeval

subsection \<open>print_shquoted (identical in both revisions)\<close>

text \<open>The second argument of \<^verbatim>\<open>strpbrk\<close>: bytes 1 to 32 (octal 001 to 040), then
  backquote, caret, hash, star, brackets, equals, bar, backslash, question mark, dollar,
  braces, parentheses, both quotes, angle brackets, ampersand, semicolon and DEL.\<close>

definition shquote_accept :: string where
  "shquote_accept = map char_of [1 ..< 33 :: nat] @
     [CHR 0x60, CHR 0x5E, CHR 0x23, CHR 0x2A, CHR 0x5B, CHR 0x5D, CHR 0x3D, CHR 0x7C,
      CHR 0x5C, CHR 0x3F, CHR 0x24, CHR 0x7B, CHR 0x7D, CHR 0x28, CHR 0x29, CHR 0x27,
      CHR 0x22, CHR 0x3C, CHR 0x3E, CHR 0x26, CHR 0x3B, CHR 0x7F]"

text \<open>\<^verbatim>\<open>strpbrk(s, accept) != NULL\<close>: some byte of \<open>s\<close> is one of \<open>accept\<close>.\<close>

definition strpbrk :: "string \<Rightarrow> string \<Rightarrow> bool" where
  "strpbrk s accept = list_ex (\<lambda>c. c \<in> set accept) s"

text \<open>The loop between the two quotes: a single quote becomes the four characters
  quote, backslash, quote, quote; a newline becomes the seven characters quote, dollar,
  quote, backslash, n, quote, quote; every other byte is copied.\<close>

fun shquoted_loop :: "string \<Rightarrow> string" where
  "shquoted_loop [] = []"
| "shquoted_loop (c # s) =
     (if c = CHR 0x27 then [CHR 0x27, CHR 0x5C, CHR 0x27, CHR 0x27] @ shquoted_loop s
      else if c = CHR 0x0A then
        [CHR 0x27, CHR 0x24, CHR 0x27, CHR 0x5C, CHR ''n'', CHR 0x27, CHR 0x27] @ shquoted_loop s
      else c # shquoted_loop s)"

text \<open>The characters \<^verbatim>\<open>print_shquoted(s)\<close> writes to \<^verbatim>\<open>output\<close>.\<close>

definition print_shquoted :: "string \<Rightarrow> string" where
  "print_shquoted s =
     (if s \<noteq> [] \<and> \<not> strpbrk s shquote_accept then s
      else [CHR 0x27] @ shquoted_loop s @ [CHR 0x27])"

subsection \<open>Reference: reading one shell word\<close>

text \<open>
  The shell is not part of the repository. This reference reader follows the POSIX shell
  rules for one word: token recognition, tilde expansion and quote removal, with the
  dollar-single-quote form that \<^verbatim>\<open>print_shquoted\<close> emits for a newline. It reads its whole
  input as one word and returns the characters of the argument the shell passes on;
  \<open>None\<close> when the input is not exactly one word of the supported forms: an unquoted
  blank, newline or operator character (which would end the word), a double quote, a
  backquote, a hash, a dollar sign not followed by a single quote, an unterminated quote,
  or an escape it does not know.
\<close>

definition sh_metachar :: "char \<Rightarrow> bool" where
  "sh_metachar c = (c \<in> set [CHR 0x20, CHR 0x09, CHR 0x0A, CHR 0x7C, CHR 0x26, CHR 0x3B,
     CHR 0x3C, CHR 0x3E, CHR 0x28, CHR 0x29, CHR 0x22, CHR 0x60, CHR 0x23])"

definition ansi_c_escape :: "char \<Rightarrow> char option" where
  "ansi_c_escape c =
     (if c = CHR ''n'' then Some (CHR 0x0A)
      else if c = CHR ''t'' then Some (CHR 0x09)
      else if c = CHR 0x5C then Some (CHR 0x5C)
      else if c = CHR 0x27 then Some (CHR 0x27)
      else None)"

fun sh_unquoted :: "string \<Rightarrow> string option"
  and sh_single :: "string \<Rightarrow> string option"
  and sh_dollar_single :: "string \<Rightarrow> string option" where
  "sh_unquoted [] = Some []"
| "sh_unquoted (c # cs) =
     (if c = CHR 0x27 then sh_single cs
      else if c = CHR 0x5C then
        (case cs of [] \<Rightarrow> None
         | d # ds \<Rightarrow> if d = CHR 0x0A then sh_unquoted ds else map_option ((#) d) (sh_unquoted ds))
      else if c = CHR 0x24 then
        (case cs of [] \<Rightarrow> None
         | d # ds \<Rightarrow> if d = CHR 0x27 then sh_dollar_single ds else None)
      else if sh_metachar c then None
      else map_option ((#) c) (sh_unquoted cs))"
| "sh_single [] = None"
| "sh_single (c # cs) =
     (if c = CHR 0x27 then sh_unquoted cs else map_option ((#) c) (sh_single cs))"
| "sh_dollar_single [] = None"
| "sh_dollar_single (c # cs) =
     (if c = CHR 0x27 then sh_unquoted cs
      else if c = CHR 0x5C then
        (case cs of [] \<Rightarrow> None
         | d # ds \<Rightarrow>
             (case ansi_c_escape d of None \<Rightarrow> None
              | Some e \<Rightarrow> map_option ((#) e) (sh_dollar_single ds)))
      else map_option ((#) c) (sh_dollar_single cs))"

text \<open>
  Tilde expansion: when the word begins with an unquoted tilde, the characters up to the
  first slash are the tilde-prefix; when none of them is quoted, the characters after the
  tilde are a login name, and the prefix is replaced by the home directory of that user
  (by the value of \<^verbatim>\<open>HOME\<close> for the empty name). \<open>home\<close> gives these directories; for a
  name it does not know the word is left as it is.
\<close>

definition sh_plain :: "char \<Rightarrow> bool" where
  "sh_plain c = (c \<noteq> CHR 0x27 \<and> c \<noteq> CHR 0x5C \<and> c \<noteq> CHR 0x24 \<and> \<not> sh_metachar c)"

definition sh_word :: "(string \<Rightarrow> string option) \<Rightarrow> string \<Rightarrow> string option" where
  "sh_word home w =
     (case w of
        [] \<Rightarrow> None
      | c # cs \<Rightarrow>
          if c = CHR ''~'' \<and> list_all sh_plain (takeWhile (\<lambda>x. x \<noteq> CHR ''/'') cs)
          then (case home (takeWhile (\<lambda>x. x \<noteq> CHR ''/'') cs) of
                  Some dir \<Rightarrow>
                    map_option ((@) dir) (sh_unquoted (dropWhile (\<lambda>x. x \<noteq> CHR ''/'') cs))
                | None \<Rightarrow> sh_unquoted w)
          else sh_unquoted w)"

subsection \<open>Kernel answers\<close>

text \<open>
  \<^verbatim>\<open>struct kinfo_proc\<close> with the fields the program reads. A process table answers
  \<^verbatim>\<open>kvm_getprocs(kd, KERN_PROC_PID, pid, &n)\<close>: \<open>None\<close> is the NULL result.
\<close>

record kinfo_proc =
  ki_pid :: int
  ki_ppid :: int
  ki_stat :: int
  ki_start :: timeval

type_synonym proc_table = "int \<Rightarrow> kinfo_proc option"

text \<open>
  What the kernel answers while one exec event is handled: the process table as
  \<^verbatim>\<open>pid_depth\<close> sees it, then the handler's own \<^verbatim>\<open>kvm_getprocs\<close>, \<^verbatim>\<open>kvm_getargv\<close> and
  \<^verbatim>\<open>kvm_getenvv\<close> (the process may have exited in between), the two \<^verbatim>\<open>sysctl\<close> calls
  (return value, and the buffer's contents after the call) and \<^verbatim>\<open>gettimeofday\<close>.
\<close>

record exec_env =
  getprocs :: proc_table
  exec_kp :: "kinfo_proc option"
  exec_argv :: "string list option"
  exec_envv :: "string list option"
  sysctl_cwd :: "int \<times> string"
  sysctl_path :: "int \<times> string"
  exec_now :: timeval

subsection \<open>Globals\<close>

text \<open>The option variables, fixed once the options are parsed.\<close>

record config =
  parent :: int
  flat :: bool
  full_path :: bool
  show_args :: bool
  show_cwd :: bool
  show_env :: bool
  show_exit :: bool

text \<open>The two streams: \<^verbatim>\<open>output\<close>, and the lines written to \<^verbatim>\<open>stderr\<close> (each by its
  format string; \<^verbatim>\<open>warn\<close> and \<^verbatim>\<open>err\<close> by their argument).\<close>

record streams =
  output' :: "out_item list"
  stderr :: "string list"

definition CMDLINE_DB_MAX :: nat where
  "CMDLINE_DB_MAX = 32"

definition PID_DB_SIZE :: nat where
  "PID_DB_SIZE = 1024"

text \<open>One element of \<^verbatim>\<open>pid_db\<close>; the array is a function of the index, and the program
  only ever uses indices \<open>0 .. PID_DB_SIZE - 1\<close>.\<close>

record pid_entry =
  pid :: int
  depth :: int
  start :: timeval
  cmdline :: string

record state = streams +
  pid_db :: "nat \<Rightarrow> pid_entry"
  quit :: bool

text \<open>Static storage is zero-initialised.\<close>

definition zero_entry :: pid_entry where
  "zero_entry = \<lparr>pid = 0, depth = 0, start = \<lparr>tv_sec = 0, tv_usec = 0\<rparr>, cmdline = []\<rparr>"

definition init_state :: state where
  "init_state = \<lparr>output' = [], stderr = [], pid_db = (\<lambda>_. zero_entry), quit = False\<rparr>"

text \<open>How a call ends that may end the program: it returns, or \<^verbatim>\<open>exit\<close>/\<^verbatim>\<open>err\<close> ends the
  process with a status.\<close>

datatype 'a outcome = Return 'a | Exit int 'a

subsection \<open>pid_depth\<close>

text \<open>\<^verbatim>\<open>src/extrace.c\<close>, lines 46 to 75. The result is the returned depth and the lines
  written to \<^verbatim>\<open>stderr\<close>.\<close>

partial_function (option) pid_depth_v1 :: "proc_table \<Rightarrow> int \<Rightarrow> int \<Rightarrow> (int \<times> string list) option" where
  "pid_depth_v1 procs root p =
     (case procs p of
        None \<Rightarrow> Some (- 1, [''extrace: kvm_getprocs: %s''])
      | Some kp \<Rightarrow>
          if p = root then Some (0, [])
          else if ki_ppid kp = root then Some (1, [])
          else if ki_ppid kp = 0 then Some (- 1, [])
          else Option.bind (pid_depth_v1 procs root (ki_ppid kp))
                 (\<lambda>r. if fst r = - 1 then Some (- 1, snd r) else Some (fst r + 1, snd r)))"

text \<open>\<^verbatim>\<open>src/unnamed/part_000\<close>, lines 79 to 81: the loop over the table. It has no
  \<^verbatim>\<open>break\<close>; it returns the final \<open>i\<close> and \<open>d\<close>, where \<open>d = None\<close> is the local still
  uninitialised.\<close>

function depth_scan :: "(nat \<Rightarrow> pid_entry) \<Rightarrow> int \<Rightarrow> nat \<Rightarrow> int option \<Rightarrow> nat \<times> int option" where
  "depth_scan db ppid i d =
     (if i < PID_DB_SIZE - 1
      then depth_scan db ppid (i + 1) (if pid (db i) = ppid then Some (depth (db i)) else d)
      else (i, d))"
  by pat_completeness auto
termination
  by (relation "measure (\<lambda>(db, ppid, i, d). PID_DB_SIZE - 1 - i)") auto

declare depth_scan.simps [simp del]

text \<open>\<^verbatim>\<open>src/unnamed/part_000\<close>, lines 56 to 89.\<close>

partial_function (option) pid_depth ::
    "proc_table \<Rightarrow> int \<Rightarrow> (nat \<Rightarrow> pid_entry) \<Rightarrow> int \<Rightarrow> (int \<times> string list) option" where
  "pid_depth procs root db p =
     (case procs p of
        None \<Rightarrow> Some (- 1, [''extrace: kvm_getprocs: %s''])
      | Some kp \<Rightarrow>
          if p = root then Some (0, [])
          else if ki_ppid kp = root then Some (1, [])
          else if ki_ppid kp = 0 then Some (- 1, [])
          else Option.bind
                 (if fst (depth_scan db (ki_ppid kp) 0 None) = PID_DB_SIZE - 1
                  then pid_depth procs root db (ki_ppid kp)
                  else map_option (\<lambda>d. (d, [])) (snd (depth_scan db (ki_ppid kp) 0 None)))
                 (\<lambda>r. if fst r = - 1 then Some (- 1, snd r) else Some (fst r + 1, snd r)))"

declare pid_depth_v1.simps [code]
declare pid_depth.simps [code]

subsection \<open>The table scan of handle_exit and handle_exec\<close>

text \<open>\<^verbatim>\<open>for (i = 0; i < PID_DB_SIZE - 1; i++) if (pid_db[i].pid == 0 || pid_db[i].pid == pid) break;\<close>
  started at \<open>i\<close>; the result is the final \<open>i\<close>.\<close>

function find_slot :: "(nat \<Rightarrow> pid_entry) \<Rightarrow> int \<Rightarrow> nat \<Rightarrow> nat" where
  "find_slot db p i =
     (if i < PID_DB_SIZE - 1
      then (if pid (db i) = 0 \<or> pid (db i) = p then i else find_slot db p (i + 1))
      else i)"
  by pat_completeness auto
termination
  by (relation "measure (\<lambda>(db, p, i). PID_DB_SIZE - 1 - i)") auto

declare find_slot.simps [simp del]

subsection \<open>handle_exit\<close>

text \<open>\<^verbatim>\<open>timersub\<close> of \<^verbatim>\<open><sys/time.h>\<close>, and the status macros of FreeBSD's
  \<^verbatim>\<open><sys/wait.h>\<close> (\<^verbatim>\<open>x & 0177\<close> is \<open>x mod 128\<close>, \<^verbatim>\<open>x >> 8\<close> is \<open>x div 256\<close>).\<close>

definition timersub :: "timeval \<Rightarrow> timeval \<Rightarrow> timeval" where
  "timersub a b =
     (if tv_usec a - tv_usec b < 0
      then \<lparr>tv_sec = tv_sec a - tv_sec b - 1, tv_usec = tv_usec a - tv_usec b + 1000000\<rparr>
      else \<lparr>tv_sec = tv_sec a - tv_sec b, tv_usec = tv_usec a - tv_usec b\<rparr>)"

definition WTERMSIG :: "int \<Rightarrow> int" where
  "WTERMSIG x = x mod 128"

definition WIFSIGNALED :: "int \<Rightarrow> bool" where
  "WIFSIGNALED x = (x mod 128 \<noteq> 127 \<and> x mod 128 \<noteq> 0 \<and> x \<noteq> 19)"

definition WEXITSTATUS :: "int \<Rightarrow> int" where
  "WEXITSTATUS x = x div 256"

text \<open>The items of the exit line, and the exit line of \<^verbatim>\<open>-t\<close> for a second exec.\<close>

definition exit_line :: "config \<Rightarrow> timeval \<Rightarrow> int \<Rightarrow> int \<Rightarrow> pid_entry \<Rightarrow> out_item list" where
  "exit_line c now p status e =
     (if \<not> flat c then [Pad (2 * depth e)] else []) @
     [Dec p, Chars ''- '', Chars (print_shquoted (cmdline e))] @
     (if WIFSIGNALED status then [Chars '' exited signal='', Signame (WTERMSIG status)]
      else [Chars '' exited status='', Dec (WEXITSTATUS status)]) @
     [Chars '' time='', Secs (timersub now (start e)), Chars [CHR ''s'', CHR 0x0A]]"

text \<open>\<^verbatim>\<open>src/unnamed/part_000\<close>, lines 115 to 145; \<open>now\<close> is what \<^verbatim>\<open>gettimeofday\<close> answers.\<close>

definition handle_exit :: "config \<Rightarrow> timeval \<Rightarrow> int \<Rightarrow> int \<Rightarrow> state \<Rightarrow> state" where
  "handle_exit c now p status s =
     (let i = find_slot (pid_db s) p 0; e = pid_db s i in
      if \<not> flat c \<and> depth e < 0 then s
      else s\<lparr>output' := output' s @ exit_line c now p status e,
             pid_db := (pid_db s)(i := e\<lparr>pid := 0\<rparr>)\<rparr>)"

subsection \<open>The exec line\<close>

definition indent :: "config \<Rightarrow> int \<Rightarrow> out_item list" where
  "indent c d = (if \<not> flat c then [Pad (2 * d)] else [])"

text \<open>The \<^verbatim>\<open>show_cwd\<close> block. The test is \<^verbatim>\<open>sysctl(...) != 1\<close>, as the source has it.\<close>

definition cwd_items :: "config \<Rightarrow> exec_env \<Rightarrow> out_item list" where
  "cwd_items c e =
     (if show_cwd c
      then [Chars (if fst (sysctl_cwd e) \<noteq> 1 then print_shquoted (snd (sysctl_cwd e)) else ''?''),
            Chars '' % '']
      else [])"

definition args_items :: "config \<Rightarrow> string list \<Rightarrow> out_item list" where
  "args_items c as =
     (if show_args c then concat (map (\<lambda>a. [Chars '' '', Chars (print_shquoted a)]) as) else [])"

definition env_entry :: "string \<Rightarrow> out_item list" where
  "env_entry v =
     Chars '' '' #
     (if CHR ''='' \<in> set v
      then [Chars (print_shquoted (takeWhile (\<lambda>x. x \<noteq> CHR ''='') v)), Chars ''='',
            Chars (print_shquoted (tl (dropWhile (\<lambda>x. x \<noteq> CHR ''='') v)))]
      else [Chars (print_shquoted v)])"

definition env_items :: "config \<Rightarrow> exec_env \<Rightarrow> out_item list" where
  "env_items c e =
     (if show_env c
      then (case exec_envv e of Some vs \<Rightarrow> concat (map env_entry vs) | None \<Rightarrow> [Chars '' -''])
      else [])"

subsection \<open>handle_exec\<close>

text \<open>\<^verbatim>\<open>src/unnamed/part_000\<close>, lines 173 to 198: the block under
  \<^verbatim>\<open>if (show_exit || !flat)\<close>. It returns the index \<open>i\<close> the scan ended at.\<close>

definition exec_ledger :: "config \<Rightarrow> timeval \<Rightarrow> kinfo_proc \<Rightarrow> int \<Rightarrow> int \<Rightarrow> state \<Rightarrow> nat \<times> state" where
  "exec_ledger c now kp p d s =
     (let i = find_slot (pid_db s) p 0;
          s1 = (if i = PID_DB_SIZE - 1
                then s\<lparr>stderr := stderr s @ [''extrace: warning: pid_db of size %d overflowed'']\<rparr>
                else s);
          en = pid_db s i
      in if show_exit c \<and> pid en = p
         then (i, s1\<lparr>output' := output' s1 @ indent c d @
                        [Dec p, Chars ''- '', Chars (cmdline en), Chars '' execed time='',
                         Secs (timersub now (start en)), Chars [CHR ''s'', CHR 0x0A]],
                      pid_db := (pid_db s1)(i := en\<lparr>start := now\<rparr>)\<rparr>)
         else (i, s1\<lparr>pid_db := (pid_db s1)(i := en\<lparr>pid := p, depth := d, start := ki_start kp\<rparr>)\<rparr>))"

text \<open>Lines 172 to 266, once both fetches have succeeded; \<open>pp\<close> is the argument vector.
  With \<^verbatim>\<open>-f\<close> and without \<^verbatim>\<open>-t\<close> the block that sets \<open>i\<close> is skipped and
  \<^verbatim>\<open>pid_db[i].cmdline\<close> is written with \<open>i\<close> uninitialised; with an empty argument
  vector \<^verbatim>\<open>*pp\<close> is NULL and \<^verbatim>\<open>print_shquoted\<close> reads through it. Both are \<open>None\<close>.\<close>

definition exec_line ::
    "config \<Rightarrow> exec_env \<Rightarrow> kinfo_proc \<Rightarrow> int \<Rightarrow> int \<Rightarrow> string list \<Rightarrow> state \<Rightarrow> state option" where
  "exec_line c e kp p d pp s =
     (if \<not> (show_exit c \<or> \<not> flat c) then None
      else (case pp of
        [] \<Rightarrow> None
      | a # as \<Rightarrow>
          (let r = exec_ledger c (exec_now e) kp p d s; i = fst r; s1 = snd r;
               name = (if full_path c \<and> fst (sysctl_path e) \<noteq> 1 then snd (sysctl_path e) else a)
           in Some (s1\<lparr>output' := output' s1 @ indent c d @ [Dec p] @
                          (if show_exit c then [Chars ''+''] else []) @ [Chars '' ''] @
                          cwd_items c e @ [Chars (print_shquoted name)] @ args_items c as @
                          env_items c e @ [Chars [CHR 0x0A]],
                        pid_db := (pid_db s1)
                          (i := (pid_db s1 i)\<lparr>cmdline := take (CMDLINE_DB_MAX - 1) name\<rparr>)\<rparr>))))"

text \<open>\<^verbatim>\<open>src/unnamed/part_000\<close>, lines 147 to 267.\<close>

definition handle_exec :: "config \<Rightarrow> exec_env \<Rightarrow> int \<Rightarrow> state \<Rightarrow> state option" where
  "handle_exec c e p s =
     (case pid_depth (getprocs e) (parent c) (pid_db s) p of
        None \<Rightarrow> None
      | Some r \<Rightarrow>
          (let d = fst r; s0 = s\<lparr>stderr := stderr s @ snd r\<rparr> in
           if d < 0 then Some s0
           else (case exec_kp e of
             None \<Rightarrow> Some (s0\<lparr>output' := output' s0 @ [Chars [CHR 0x0A]],
                               stderr := stderr s0 @ [''kvm_getprocs'']\<rparr>)
           | Some kp \<Rightarrow>
               (case exec_argv e of
                  None \<Rightarrow> Some (s0\<lparr>output' := output' s0 @ [Chars [CHR 0x0A]],
                                    stderr := stderr s0 @ [''kvm_getargv'']\<rparr>)
                | Some pp \<Rightarrow> exec_line c e kp p d pp s0))))"

subsection \<open>handle_msg\<close>

text \<open>\<^verbatim>\<open>src/extrace.c\<close>, lines 101 to 179. \<^verbatim>\<open>err(1, ...)\<close> ends the program with status
  1 after its message.\<close>

definition handle_msg :: "config \<Rightarrow> exec_env \<Rightarrow> int \<Rightarrow> streams \<Rightarrow> streams outcome option" where
  "handle_msg c e p s =
     (case (if flat c then Some (0, []) else pid_depth_v1 (getprocs e) (parent c) p) of
        None \<Rightarrow> None
      | Some r \<Rightarrow>
          (let s0 = s\<lparr>stderr := stderr s @ snd r\<rparr> in
           if \<not> flat c \<and> fst r < 0 then Some (Return s0)
           else
             (let s1 = s0\<lparr>output' := output' s0 @ indent c (fst r) @ [Dec p, Chars '' ''] @
                                     cwd_items c e\<rparr>
              in case exec_kp e of
                None \<Rightarrow> Some (Exit 1 (s1\<lparr>stderr := stderr s1 @ [''kvm_getprocs'']\<rparr>))
              | Some kp \<Rightarrow>
                  (case exec_argv e of
                     None \<Rightarrow> Some (Exit 1 (s1\<lparr>stderr := stderr s1 @ [''kvm_getargv'']\<rparr>))
                   | Some pp \<Rightarrow>
                       (case pp of
                          [] \<Rightarrow> None
                        | a # as \<Rightarrow>
                            Some (Return (s1\<lparr>output' := output' s1 @
                              [Chars (print_shquoted
                                 (if full_path c \<and> fst (sysctl_path e) \<noteq> 1
                                  then snd (sysctl_path e) else a))] @
                              args_items c as @ env_items c e @ [Chars [CHR 0x0A]]\<rparr>)))))))"

subsection \<open>The dispatch loop of part_000\<close>

text \<open>Constants of FreeBSD's \<^verbatim>\<open><sys/event.h>\<close>, \<^verbatim>\<open><signal.h>\<close>, \<^verbatim>\<open><sys/proc.h>\<close> and
  \<^verbatim>\<open><errno.h>\<close>. The statements below use only that the two filters differ, that the
  \<^verbatim>\<open>NOTE\<close> bits do not overlap, and that \<^verbatim>\<open>ESRCH\<close> and \<^verbatim>\<open>EVFILT_PROC\<close> are not 0.\<close>

definition EVFILT_PROC :: int where "EVFILT_PROC = - 5"
definition EVFILT_SIGNAL :: int where "EVFILT_SIGNAL = - 6"
definition EV_ADD :: "32 word" where "EV_ADD = 0x0001"
definition NOTE_EXIT :: "32 word" where "NOTE_EXIT = 0x80000000"
definition NOTE_EXEC :: "32 word" where "NOTE_EXEC = 0x20000000"
definition NOTE_TRACK :: "32 word" where "NOTE_TRACK = 0x00000001"
definition SIGINT :: int where "SIGINT = 2"
definition SIGCHLD :: int where "SIGCHLD = 20"
definition SZOMB :: int where "SZOMB = 5"
definition ESRCH :: int where "ESRCH = 3"

text \<open>\<^verbatim>\<open>struct kevent\<close>. \<open>ident\<close> is the value of the \<^verbatim>\<open>uintptr_t\<close> field (64 bits):
  \<^verbatim>\<open>EV_SET\<close> converts its argument, so a negative \<^verbatim>\<open>int\<close> \<open>n\<close> is stored as \<open>2 ^ 64 + n\<close>. In
  a received event it is the PID or signal number the kernel reports.\<close>

definition to_uintptr :: "int \<Rightarrow> int" where
  "to_uintptr v = v mod 2 ^ 64"

record kevent =
  ident :: int
  filter' :: int
  flags :: "32 word"
  fflags :: "32 word"
  data :: int

text \<open>A received event, with what the kernel answers while it is handled: \<open>ev_env\<close> for
  the handlers, and \<open>ev_reaped\<close>, the children \<^verbatim>\<open>waitpid(-1, &wstatus, WNOHANG)\<close> returns
  until it returns no more (pid, status, and \<^verbatim>\<open>gettimeofday\<close> at that time).\<close>

record event =
  kev :: kevent
  ev_env :: exec_env
  ev_reaped :: "(int \<times> int \<times> timeval) list"

fun reap :: "config \<Rightarrow> (int \<times> int \<times> timeval) list \<Rightarrow> state \<Rightarrow> state" where
  "reap c [] s = s"
| "reap c ((p, status, now) # r) s =
     reap c r (if show_exit c then handle_exit c now p status s else s)"

text \<open>The \<^verbatim>\<open>switch\<close> of lines 363 to 379.\<close>

definition dispatch_event :: "config \<Rightarrow> event \<Rightarrow> state \<Rightarrow> state option" where
  "dispatch_event c ev s =
     (if filter' (kev ev) = EVFILT_SIGNAL
      then Some ((if ident (kev ev) = SIGCHLD then reap c (ev_reaped ev) s else s)\<lparr>quit := True\<rparr>)
      else if filter' (kev ev) = EVFILT_PROC
      then (if fflags (kev ev) AND NOTE_EXIT \<noteq> 0
            then Some (handle_exit c (exec_now (ev_env ev)) (ident (kev ev)) (data (kev ev)) s)
            else if fflags (kev ev) AND NOTE_EXEC \<noteq> 0
            then handle_exec c (ev_env ev) (ident (kev ev)) s
            else Some s)
      else Some s)"

text \<open>The \<^verbatim>\<open>for\<close> loop over one batch, left by \<^verbatim>\<open>break\<close> once \<^verbatim>\<open>quit\<close> is set, and the
  \<^verbatim>\<open>while (!quit)\<close> loop over the batches \<^verbatim>\<open>kevent\<close> delivers (a failed \<^verbatim>\<open>kevent\<close> is an
  empty batch). When the list of batches is used up the program is waiting in
  \<^verbatim>\<open>kevent\<close>: the state is returned with \<open>quit\<close> unset.\<close>

fun batch :: "config \<Rightarrow> event list \<Rightarrow> state \<Rightarrow> state option" where
  "batch c [] s = Some s"
| "batch c (ev # evs) s =
     (case dispatch_event c ev s of
        None \<Rightarrow> None
      | Some s' \<Rightarrow> if quit s' then Some s' else batch c evs s')"

fun dispatch_loop :: "config \<Rightarrow> event list list \<Rightarrow> state \<Rightarrow> state option" where
  "dispatch_loop c [] s = Some s"
| "dispatch_loop c (b # bs) s =
     (if quit s then Some s
      else (case batch c b s of None \<Rightarrow> None | Some s' \<Rightarrow> dispatch_loop c bs s'))"

subsection \<open>Option parsing\<close>

text \<open>The two revisions of \<^verbatim>\<open>main\<close> differ in the option \<^verbatim>\<open>-t\<close> (option string
  \<^verbatim>\<open>"deflo:p:qw"\<close> against \<^verbatim>\<open>"deflo:p:qtw"\<close>, and the usage text) and in the
  \<^verbatim>\<open>NOTE_EXIT\<close> flag that \<^verbatim>\<open>-t\<close> adds; one model takes the revision as a parameter.\<close>

datatype revision = Extrace_c | Part_000

text \<open>\<^verbatim>\<open>atoi\<close> of the C library: FreeBSD's is \<^verbatim>\<open>(int)strtol(str, NULL, 10)\<close>. \<^verbatim>\<open>strtol\<close>
  skips white space, reads an optional sign and the longest run of digits (no digits
  gives 0), and clamps the value to the range of \<^verbatim>\<open>long\<close> (64 bits on the LP64 targets);
  the conversion to \<^verbatim>\<open>int\<close> keeps the low 32 bits, read as two's complement.\<close>

definition isspace :: "char \<Rightarrow> bool" where
  "isspace c = (c \<in> set [CHR 0x20, CHR 0x09, CHR 0x0A, CHR 0x0B, CHR 0x0C, CHR 0x0D])"

definition isdigit :: "char \<Rightarrow> bool" where
  "isdigit c = (48 \<le> (of_char c :: nat) \<and> (of_char c :: nat) \<le> 57)"

fun digits_value :: "int \<Rightarrow> string \<Rightarrow> int" where
  "digits_value acc [] = acc"
| "digits_value acc (c # cs) =
     (if isdigit c then digits_value (acc * 10 + (of_char c - 48)) cs else acc)"

definition strtol10 :: "string \<Rightarrow> int" where
  "strtol10 s =
     max (- (2 ^ 63)) (min (2 ^ 63 - 1)
       (case dropWhile isspace s of
          [] \<Rightarrow> 0
        | c # cs \<Rightarrow>
            if c = CHR ''-'' then - digits_value 0 cs
            else if c = CHR ''+'' then digits_value 0 cs
            else digits_value 0 (c # cs)))"

definition to_int :: "int \<Rightarrow> int" where
  "to_int v = (v + 2 ^ 31) mod 2 ^ 32 - 2 ^ 31"

definition atoi :: "string \<Rightarrow> int" where
  "atoi s = to_int (strtol10 s)"

text \<open>"The text begins with a decimal number": after white space and an optional sign
  comes a digit.\<close>

definition begins_with_number :: "string \<Rightarrow> bool" where
  "begins_with_number s =
     (case dropWhile isspace s of
        [] \<Rightarrow> False
      | c # cs \<Rightarrow>
          if c = CHR ''-'' \<or> c = CHR ''+'' then (case cs of [] \<Rightarrow> False | d # _ \<Rightarrow> isdigit d)
          else isdigit c)"

definition default_config :: config where
  "default_config = \<lparr>parent = 1, flat = False, full_path = False, show_args = True,
     show_cwd = False, show_env = False, show_exit = False\<rparr>"

text \<open>How the \<^verbatim>\<open>getopt\<close> loop ends: the options are parsed (the configuration, the file
  of \<^verbatim>\<open>-o\<close> if any, and the arguments from \<^verbatim>\<open>optind\<close> on), or control reaches the label
  \<^verbatim>\<open>usage\<close>, or \<^verbatim>\<open>fopen\<close> failed.\<close>

datatype parse = Parsed config "string option" "string list" | Usage_error | Fopen_failed

text \<open>
  The loop \<^verbatim>\<open>while ((opt = getopt(argc, argv, ...)) != -1) switch (opt) ...\<close>, lines 277 to
  295, with \<^verbatim>\<open>getopt\<close> as POSIX describes it: the third argument is the rest of the
  option cluster being read, the fourth the arguments not yet read. Parsing stops at
  \<^verbatim>\<open>--\<close> (consumed), at \<^verbatim>\<open>-\<close> and at the first argument that does not start with
  \<^verbatim>\<open>-\<close>; an option letter not in the option string, and \<^verbatim>\<open>-o\<close> or \<^verbatim>\<open>-p\<close> without an
  argument, make \<^verbatim>\<open>getopt\<close> return \<^verbatim>\<open>'?'\<close>, the \<^verbatim>\<open>default\<close> case (the line
  \<^verbatim>\<open>getopt\<close> itself writes to \<^verbatim>\<open>stderr\<close> then is not recorded). \<open>fo\<close> tells whether
  \<^verbatim>\<open>fopen(optarg, "w")\<close> succeeds.
\<close>

fun getopt_loop ::
    "revision \<Rightarrow> (string \<Rightarrow> bool) \<Rightarrow> config \<Rightarrow> string option \<Rightarrow> string \<Rightarrow> string list \<Rightarrow> parse" where
  "getopt_loop rv fo c f [] [] = Parsed c f []"
| "getopt_loop rv fo c f [] (a # rest) =
     (if a = ''--'' then Parsed c f rest
      else (case a of
        [] \<Rightarrow> Parsed c f (a # rest)
      | x # xs \<Rightarrow>
          if x = CHR ''-'' \<and> xs \<noteq> [] then getopt_loop rv fo c f xs rest
          else Parsed c f (a # rest)))"
| "getopt_loop rv fo c f (x # xs) rest =
     (if x = CHR ''d'' then getopt_loop rv fo (c\<lparr>show_cwd := True\<rparr>) f xs rest
      else if x = CHR ''e'' then getopt_loop rv fo (c\<lparr>show_env := True\<rparr>) f xs rest
      else if x = CHR ''f'' then getopt_loop rv fo (c\<lparr>flat := True\<rparr>) f xs rest
      else if x = CHR ''l'' then getopt_loop rv fo (c\<lparr>full_path := True\<rparr>) f xs rest
      else if x = CHR ''p'' then
        (if xs \<noteq> [] then getopt_loop rv fo (c\<lparr>parent := atoi xs\<rparr>) f [] rest
         else (case rest of
           [] \<Rightarrow> Usage_error
         | optarg # rest' \<Rightarrow> getopt_loop rv fo (c\<lparr>parent := atoi optarg\<rparr>) f [] rest'))
      else if x = CHR ''q'' then getopt_loop rv fo (c\<lparr>show_args := False\<rparr>) f xs rest
      else if x = CHR ''o'' then
        (if xs \<noteq> [] then
           (if fo xs then getopt_loop rv fo c (Some xs) [] rest else Fopen_failed)
         else (case rest of
           [] \<Rightarrow> Usage_error
         | optarg # rest' \<Rightarrow>
             if fo optarg then getopt_loop rv fo c (Some optarg) [] rest' else Fopen_failed))
      else if x = CHR ''t'' \<and> rv = Part_000 then
        getopt_loop rv fo (c\<lparr>show_exit := True\<rparr>) f xs rest
      else if x = CHR ''w'' then getopt_loop rv fo c f xs rest
      else Usage_error)"

subsection \<open>main, up to the dispatch loop\<close>

text \<open>What the system answers during startup: \<^verbatim>\<open>fopen\<close>, \<^verbatim>\<open>kqueue\<close>,
  \<^verbatim>\<open>kvm_openfiles\<close>, the \<^verbatim>\<open>kevent\<close> calls that register \<^verbatim>\<open>SIGCHLD\<close>, \<^verbatim>\<open>SIGINT\<close> and the
  process \<^verbatim>\<open>parent\<close>, \<^verbatim>\<open>fork\<close>, and one \<open>attempt\<close> per pass through the label \<^verbatim>\<open>again\<close>:
  the listing of \<^verbatim>\<open>kvm_getprocs(kd, KERN_PROC_ALL, 0, &n)\<close>, whether \<^verbatim>\<open>calloc\<close>
  succeeds, and the return value and \<^verbatim>\<open>errno\<close> of the \<^verbatim>\<open>kevent\<close> call.\<close>

record attempt =
  listing :: "kinfo_proc list option"
  calloc_ok :: bool
  kevent_ret :: int
  kevent_errno :: int

record sys =
  fopen_ok :: "string \<Rightarrow> bool"
  kqueue_ret :: int
  kvm_open_ok :: bool
  kevent_sigchld :: int
  fork_ret :: int
  kevent_sigint :: int
  kevent_parent :: int
  attempts :: "attempt list"

text \<open>What startup did: the change lists passed to \<^verbatim>\<open>kevent\<close>, in order, and the lines
  written to \<^verbatim>\<open>stderr\<close>.\<close>

record trace =
  armed :: "kevent list list"
  errs :: "string list"

text \<open>How startup ends: the process ends with a status (\<^verbatim>\<open>exit\<close>, \<^verbatim>\<open>err\<close>, or
  \<^verbatim>\<open>return\<close> from \<^verbatim>\<open>main\<close>); or this is the forked child, about to \<^verbatim>\<open>execvp\<close> the command;
  or the dispatch loop is entered with the final configuration and output file; or the
  program is still at \<^verbatim>\<open>goto again\<close> when the listed attempts are used up.\<close>

datatype main_result = Exited int | Child "string list" | Loop config "string option" | Retrying

definition usage_text :: "revision \<Rightarrow> string" where
  "usage_text rv =
     (if rv = Part_000 then ''Usage: extrace [-deflqt] [-o FILE] [-p PID|CMD...]''
      else ''Usage: extrace [-deflq] [-o FILE] [-p PID|CMD...]'')"

definition zero_kevent :: kevent where
  "zero_kevent = \<lparr>ident = 0, filter' = 0, flags = 0, fflags = 0, data = 0\<rparr>"

text \<open>\<^verbatim>\<open>EV_SET(&kev[0], sig, EVFILT_SIGNAL, EV_ADD, 0, 0, 0)\<close> and the two
  \<^verbatim>\<open>EVFILT_PROC\<close> forms.\<close>

definition signal_kevent :: "int \<Rightarrow> kevent" where
  "signal_kevent sig = \<lparr>ident = to_uintptr sig, filter' = EVFILT_SIGNAL, flags = EV_ADD, fflags = 0, data = 0\<rparr>"

definition parent_kevent :: "int \<Rightarrow> kevent" where
  "parent_kevent p =
     \<lparr>ident = to_uintptr p, filter' = EVFILT_PROC, flags = EV_ADD, fflags = NOTE_EXEC OR NOTE_TRACK, data = 0\<rparr>"

definition proc_kevent :: "config \<Rightarrow> int \<Rightarrow> kevent" where
  "proc_kevent c p =
     \<lparr>ident = to_uintptr p, filter' = EVFILT_PROC, flags = EV_ADD,
      fflags = NOTE_EXEC OR (if show_exit c then NOTE_EXIT else 0) OR NOTE_TRACK, data = 0\<rparr>"

text \<open>One pass of the loop of lines 344 to 350: the element of the zeroed array \<^verbatim>\<open>kevs\<close>
  for the listed process \<open>kp\<close>. A skipped process leaves its element as \<^verbatim>\<open>calloc\<close> made
  it; the whole array of \<open>n\<close> elements is passed to \<^verbatim>\<open>kevent\<close>.\<close>

definition kevs_entry :: "config \<Rightarrow> kinfo_proc \<Rightarrow> kevent" where
  "kevs_entry c kp =
     (if ki_pid kp = 0 \<or> ki_ppid kp = 0 then zero_kevent
      else if ki_stat kp = SZOMB then zero_kevent
      else proc_kevent c (ki_pid kp))"

text \<open>Lines 336 to 356, from the label \<^verbatim>\<open>again\<close>; each \<^verbatim>\<open>goto again\<close> takes the next
  attempt. \<^verbatim>\<open>errno\<close> is set to 0 before the call, and \<^verbatim>\<open>warn\<close> and \<^verbatim>\<open>free\<close> are taken
  to leave it as \<^verbatim>\<open>kevent\<close> set it.\<close>

fun bootstrap :: "config \<Rightarrow> string option \<Rightarrow> attempt list \<Rightarrow> trace \<Rightarrow> main_result \<times> trace" where
  "bootstrap c f [] t = (Retrying, t)"
| "bootstrap c f (a # as) t =
     (case listing a of
        None \<Rightarrow> (Exited (- 1), t\<lparr>errs := errs t @ [''extrace: kvm_getprocs ALL: %s'']\<rparr>)
      | Some kps \<Rightarrow>
          if \<not> calloc_ok a then (Exited 1, t\<lparr>errs := errs t @ [''calloc'']\<rparr>)
          else
            (let t1 = t\<lparr>armed := armed t @ [map (kevs_entry c) kps]\<rparr>;
                 t2 = (if kevent_ret a = - 1 then t1\<lparr>errs := errs t1 @ [''kevent ALL'']\<rparr> else t1);
                 errno = (if kevent_ret a = - 1 then kevent_errno a else 0)
             in if errno = ESRCH then bootstrap c f as t2 else (Loop c f, t2)))"

text \<open>Lines 323 to 357.\<close>

definition arm_scope :: "config \<Rightarrow> string option \<Rightarrow> sys \<Rightarrow> trace \<Rightarrow> main_result \<times> trace" where
  "arm_scope c f y t =
     (let t1 = t\<lparr>armed := armed t @ [[signal_kevent SIGINT]]\<rparr> in
      if kevent_sigint y = - 1 then (Exited 1, t1\<lparr>errs := errs t1 @ [''kevent'']\<rparr>)
      else if parent c \<noteq> 1 then
        (let t2 = t1\<lparr>armed := armed t1 @ [[parent_kevent (parent c)]]\<rparr> in
         if kevent_parent y = - 1 then (Exited 1, t2\<lparr>errs := errs t2 @ [''kevent'']\<rparr>)
         else (Loop c f, t2))
      else bootstrap c f (attempts y) t1)"

text \<open>\<^verbatim>\<open>main\<close>, lines 269 to 357 of \<^verbatim>\<open>part_000\<close> (181 to 268 of \<^verbatim>\<open>extrace.c\<close>);
  \<open>argv\<close> includes \<^verbatim>\<open>argv[0]\<close>.\<close>

definition startup :: "revision \<Rightarrow> string list \<Rightarrow> sys \<Rightarrow> main_result \<times> trace" where
  "startup rv argv y =
     (case getopt_loop rv (fopen_ok y) default_config None [] (tl argv) of
        Usage_error \<Rightarrow> (Exited 1, \<lparr>armed = [], errs = [usage_text rv]\<rparr>)
      | Fopen_failed \<Rightarrow> (Exited 1, \<lparr>armed = [], errs = [''fopen'']\<rparr>)
      | Parsed c f cmd \<Rightarrow>
          if parent c \<noteq> 1 \<and> cmd \<noteq> [] then (Exited 1, \<lparr>armed = [], errs = [usage_text rv]\<rparr>)
          else if kqueue_ret y = - 1 then (Exited 1, \<lparr>armed = [], errs = [''kqueue'']\<rparr>)
          else if \<not> kvm_open_ok y then (Exited 1, \<lparr>armed = [], errs = [''kvm_open'']\<rparr>)
          else if cmd \<noteq> [] then
            (let t1 = \<lparr>armed = [[signal_kevent SIGCHLD]], errs = []\<rparr> in
             if kevent_sigchld y = - 1 then (Exited 1, t1\<lparr>errs := [''kevent'']\<rparr>)
             else if fork_ret y = - 1 then (Exited 1, t1\<lparr>errs := [''fork'']\<rparr>)
             else if fork_ret y = 0 then (Child cmd, t1)
             else arm_scope (c\<lparr>parent := fork_ret y\<rparr>) f y t1)
          else arm_scope c f y \<lparr>armed = [], errs = []\<rparr>)"

subsection \<open>Ancestry, as the specification words it\<close>

text \<open>
  \<open>ancestry procs root p k\<close>: the parent chain from \<open>p\<close> up to \<open>root\<close> has \<open>k\<close> hops, every
  process record on the way can be fetched, and no PID on the way below the root has
  parent 0. \<open>out_of_scope procs root p\<close>: walking up from \<open>p\<close>, before the root is met, a
  record cannot be fetched or a PID with parent 0 is reached.
\<close>

inductive ancestry :: "proc_table \<Rightarrow> int \<Rightarrow> int \<Rightarrow> nat \<Rightarrow> bool" for procs root where
  at_root: "procs root = Some kp \<Longrightarrow> ancestry procs root root 0"
| child: "procs p = Some kp \<Longrightarrow> p \<noteq> root \<Longrightarrow> ki_ppid kp = root \<Longrightarrow> ancestry procs root p 1"
| step: "procs p = Some kp \<Longrightarrow> p \<noteq> root \<Longrightarrow> ki_ppid kp \<noteq> root \<Longrightarrow> ki_ppid kp \<noteq> 0 \<Longrightarrow>
     ancestry procs root (ki_ppid kp) k \<Longrightarrow> ancestry procs root p (Suc k)"

inductive out_of_scope :: "proc_table \<Rightarrow> int \<Rightarrow> int \<Rightarrow> bool" for procs root where
  gone: "procs p = None \<Longrightarrow> out_of_scope procs root p"
| orphan: "procs p = Some kp \<Longrightarrow> p \<noteq> root \<Longrightarrow> ki_ppid kp \<noteq> root \<Longrightarrow> ki_ppid kp = 0 \<Longrightarrow>
     out_of_scope procs root p"
| up: "procs p = Some kp \<Longrightarrow> p \<noteq> root \<Longrightarrow> ki_ppid kp \<noteq> root \<Longrightarrow> ki_ppid kp \<noteq> 0 \<Longrightarrow>
     out_of_scope procs root (ki_ppid kp) \<Longrightarrow> out_of_scope procs root p"

subsection \<open>Concrete inputs\<close>

text \<open>Process tables, configurations and events at which the statements below are
  evaluated. \<open>proc p pp\<close> is a running process \<open>p\<close> with parent \<open>pp\<close>.\<close>

definition proc :: "int \<Rightarrow> int \<Rightarrow> kinfo_proc" where
  "proc p pp = \<lparr>ki_pid = p, ki_ppid = pp, ki_stat = 2, ki_start = \<lparr>tv_sec = 1, tv_usec = 0\<rparr>\<rparr>"

definition ex_procs :: proc_table where
  "ex_procs = [100 \<mapsto> proc 100 1, 101 \<mapsto> proc 101 100, 102 \<mapsto> proc 102 101,
     103 \<mapsto> proc 103 102, 200 \<mapsto> proc 200 0, 201 \<mapsto> proc 201 200]"

text \<open>\<^verbatim>\<open>extrace -t\<close>: the whole system, hierarchical output, exits reported.\<close>

definition cfg_t :: config where
  "cfg_t = \<lparr>parent = 1, flat = False, full_path = False, show_args = True, show_cwd = False,
            show_env = False, show_exit = True\<rparr>"

text \<open>The answers for an exec event of \<open>p\<close> under the table \<open>procs\<close>, with argument vector
  \<open>argv\<close>.\<close>

definition env_of :: "proc_table \<Rightarrow> int \<Rightarrow> string list \<Rightarrow> exec_env" where
  "env_of procs p argv = \<lparr>getprocs = procs, exec_kp = procs p, exec_argv = Some argv,
     exec_envv = None, sysctl_cwd = (0, []), sysctl_path = (0, []),
     exec_now = \<lparr>tv_sec = 5, tv_usec = 0\<rparr>\<rparr>"

definition slot_pid :: "nat \<Rightarrow> state \<Rightarrow> int" where
  "slot_pid i s = pid (pid_db s i)"

text \<open>A table with every element occupied, and two exec events for PIDs 5 and 6 that are
  not in it.\<close>

definition full_db :: "nat \<Rightarrow> pid_entry" where
  "full_db = (\<lambda>i. \<lparr>pid = int i + 100, depth = 1, start = \<lparr>tv_sec = 1, tv_usec = 0\<rparr>, cmdline = ''x''\<rparr>)"

definition full_state :: state where
  "full_state = init_state\<lparr>pid_db := full_db\<rparr>"

definition procs_o :: proc_table where
  "procs_o = [5 \<mapsto> proc 5 1, 6 \<mapsto> proc 6 1]"

definition overflow_run :: "state option" where
  "overflow_run = handle_exec cfg_t (env_of procs_o 5 [''a'']) 5 full_state"

definition overflow_run2 :: "state option" where
  "overflow_run2 = Option.bind overflow_run (handle_exec cfg_t (env_of procs_o 6 [''b'']) 6)"

text \<open>A table that holds the parents 20 and 30 with depth 3, while process 20 now has
  parent 1 (init, whose parent is 0) and process 30 is gone.\<close>

definition procs_c :: proc_table where
  "procs_c = [1 \<mapsto> proc 1 0, 20 \<mapsto> proc 20 1, 21 \<mapsto> proc 21 20, 31 \<mapsto> proc 31 30]"

definition cached_db :: "nat \<Rightarrow> pid_entry" where
  "cached_db = (\<lambda>_. zero_entry)
     (0 := \<lparr>pid = 20, depth = 3, start = \<lparr>tv_sec = 1, tv_usec = 0\<rparr>, cmdline = ''sh''\<rparr>,
      1 := \<lparr>pid = 30, depth = 3, start = \<lparr>tv_sec = 1, tv_usec = 0\<rparr>, cmdline = ''sh''\<rparr>)"

definition cached_state :: state where
  "cached_state = init_state\<lparr>pid_db := cached_db\<rparr>"

text \<open>\<^verbatim>\<open>extrace -p 100\<close>, and the exec event of 21 under it with that table.\<close>

definition cfg_p :: config where
  "cfg_p = \<lparr>parent = 100, flat = False, full_path = False, show_args = True, show_cwd = False,
            show_env = False, show_exit = False\<rparr>"

definition lost_run :: "state option" where
  "lost_run = handle_exec cfg_p (env_of procs_c 21 [''ls'']) 21 cached_state"

text \<open>The events \<^verbatim>\<open>kevent\<close> delivers for \<^verbatim>\<open>NOTE_EXEC\<close> and \<^verbatim>\<open>NOTE_EXIT\<close> of \<open>p\<close>.\<close>

definition exec_event :: "int \<Rightarrow> exec_env \<Rightarrow> event" where
  "exec_event p e = \<lparr>kev = \<lparr>ident = p, filter' = EVFILT_PROC, flags = 0, fflags = NOTE_EXEC, data = 0\<rparr>,
     ev_env = e, ev_reaped = []\<rparr>"

definition exit_event :: "int \<Rightarrow> int \<Rightarrow> exec_env \<Rightarrow> event" where
  "exit_event p status e = \<lparr>kev = \<lparr>ident = p, filter' = EVFILT_PROC, flags = 0, fflags = NOTE_EXIT, data = status\<rparr>,
     ev_env = e, ev_reaped = []\<rparr>"

text \<open>Under \<^verbatim>\<open>extrace -t\<close>: 10 and 11 exec, 10 exits, 11 execs again (\<open>dup_run\<close>), then
  11 exits (\<open>leak_run\<close>); an exit event for PID 99 that never had an entry, with the table
  empty (\<open>untracked_exit\<close>) and after 10 has come and gone (\<open>stale_exit\<close>).\<close>

definition procs_t :: proc_table where
  "procs_t = [10 \<mapsto> proc 10 1, 11 \<mapsto> proc 11 1]"

definition dup_run :: "state option" where
  "dup_run = batch cfg_t
     [exec_event 10 (env_of procs_t 10 [''sh'']), exec_event 11 (env_of procs_t 11 [''sh'']),
      exit_event 10 0 (env_of procs_t 10 []), exec_event 11 (env_of procs_t 11 [''ls''])]
     init_state"

definition leak_run :: "state option" where
  "leak_run = Option.bind dup_run (batch cfg_t [exit_event 11 0 (env_of procs_t 11 [])])"

definition untracked_exit :: state where
  "untracked_exit = handle_exit cfg_t \<lparr>tv_sec = 5, tv_usec = 0\<rparr> 99 0 init_state"

definition stale_exit :: "state option" where
  "stale_exit = batch cfg_t
     [exec_event 10 (env_of procs_t 10 [''sh'']), exit_event 10 0 (env_of procs_t 10 []),
      exit_event 99 0 (env_of procs_t 99 [])] init_state"

text \<open>An exec event of 20 whose \<^verbatim>\<open>kvm_getargv\<close> fails, and one whose process is gone
  before \<^verbatim>\<open>pid_depth\<close> runs.\<close>

definition env_noargv :: exec_env where
  "env_noargv = (env_of procs_c 20 [])\<lparr>exec_argv := None\<rparr>"

definition env_gone :: exec_env where
  "env_gone = env_of Map.empty 20 [''sh'']"

text \<open>A password database for the shell reader: the home directory of \<^verbatim>\<open>root\<close>, and
  \<^verbatim>\<open>HOME\<close> for the empty login name.\<close>

definition passwd :: "string \<Rightarrow> string option" where
  "passwd = [''root'' \<mapsto> ''/root'', [] \<mapsto> ''/home/user'']"

text \<open>A system where every startup call succeeds and \<^verbatim>\<open>fork\<close> returns 42 (and the same
  system with every \<^verbatim>\<open>fopen\<close> failing); two
  listings of the process table (with the kernel, init, a zombie); an attempt whose
  \<^verbatim>\<open>kevent\<close> fails with \<^verbatim>\<open>ESRCH\<close>, one that fails with \<^verbatim>\<open>EINVAL\<close> (22), one that
  succeeds.\<close>

definition sys_ok :: sys where
  "sys_ok = \<lparr>fopen_ok = (\<lambda>_. True), kqueue_ret = 3, kvm_open_ok = True, kevent_sigchld = 0,
     fork_ret = 42, kevent_sigint = 0, kevent_parent = 0, attempts = []\<rparr>"







section \<open>Quoting\<close>

lemma sh_single_shquoted_loop:
  "sh_single (shquoted_loop s @ CHR 0x27 # rest) = map_option ((@) s) (sh_unquoted rest)"
proof (induction s)
  case Nil
  show ?case by (simp add: option.map_ident)
next
  case (Cons c s)
  show ?case
  proof (cases "c = CHR 0x27")
    case True
    then show ?thesis using Cons.IH
      by (simp add: option.map_comp comp_def)
  next
    case False
    then show ?thesis using Cons.IH
      by (simp add: option.map_comp comp_def ansi_c_escape_def)
  qed
qed

lemma low_bytes_accept:
  "CHR 0x20 \<in> set shquote_accept" "CHR 0x09 \<in> set shquote_accept"
  "CHR 0x0A \<in> set shquote_accept"
  by code_simp+

lemma punct_accept:
  "c \<in> set [CHR 0x60, CHR 0x5E, CHR 0x23, CHR 0x2A, CHR 0x5B, CHR 0x5D, CHR 0x3D, CHR 0x7C,
      CHR 0x5C, CHR 0x3F, CHR 0x24, CHR 0x7B, CHR 0x7D, CHR 0x28, CHR 0x29, CHR 0x27,
      CHR 0x22, CHR 0x3C, CHR 0x3E, CHR 0x26, CHR 0x3B, CHR 0x7F] \<Longrightarrow> c \<in> set shquote_accept"
  unfolding shquote_accept_def set_append by (rule UnI2)

lemma not_accept_plain:
  assumes "c \<notin> set shquote_accept"
  shows "c \<noteq> CHR 0x27" "c \<noteq> CHR 0x5C" "c \<noteq> CHR 0x24" "\<not> sh_metachar c"
proof -
  from assms have p: "c \<notin> set [CHR 0x60, CHR 0x5E, CHR 0x23, CHR 0x2A, CHR 0x5B, CHR 0x5D,
      CHR 0x3D, CHR 0x7C, CHR 0x5C, CHR 0x3F, CHR 0x24, CHR 0x7B, CHR 0x7D, CHR 0x28, CHR 0x29,
      CHR 0x27, CHR 0x22, CHR 0x3C, CHR 0x3E, CHR 0x26, CHR 0x3B, CHR 0x7F]"
    using punct_accept by blast
  from p show "c \<noteq> CHR 0x27" "c \<noteq> CHR 0x5C" "c \<noteq> CHR 0x24" by simp_all
  from assms low_bytes_accept have "c \<noteq> CHR 0x20" "c \<noteq> CHR 0x09" "c \<noteq> CHR 0x0A"
    by blast+
  with p show "\<not> sh_metachar c" by (simp add: sh_metachar_def)
qed

lemma sh_unquoted_plain:
  "\<not> strpbrk s shquote_accept \<Longrightarrow> sh_unquoted s = Some s"
proof (induction s)
  case Nil
  show ?case by simp
next
  case (Cons c s)
  from Cons.prems have c: "c \<notin> set shquote_accept" and s: "\<not> strpbrk s shquote_accept"
    by (simp_all add: strpbrk_def)
  show ?case using Cons.IH [OF s] not_accept_plain [OF c] by simp
qed

lemma print_shquoted_sh_unquoted: "sh_unquoted (print_shquoted s) = Some s"
proof (cases "s \<noteq> [] \<and> \<not> strpbrk s shquote_accept")
  case True
  then show ?thesis
    by (simp add: print_shquoted_def sh_unquoted_plain)
next
  case False
  then have "print_shquoted s = CHR 0x27 # shquoted_loop s @ [CHR 0x27]"
    by (auto simp: print_shquoted_def)
  then show ?thesis
    using sh_single_shquoted_loop [of s "[]"] by simp
qed

lemma print_shquoted_first:
  assumes "s = [] \<or> hd s \<noteq> CHR ''~'' \<or> strpbrk s shquote_accept"
  shows "\<exists>c cs. print_shquoted s = c # cs \<and> c \<noteq> CHR ''~''"
proof (cases "s \<noteq> [] \<and> \<not> strpbrk s shquote_accept")
  case True
  with assms show ?thesis by (cases s) (auto simp: print_shquoted_def)
next
  case False
  then show ?thesis by (auto simp: print_shquoted_def)
qed

text \<open>Quoting is a left inverse of reading a shell word for every string that is empty,
  does not begin with a tilde, or holds one of the characters that make
  \<^verbatim>\<open>print_shquoted\<close> quote.\<close>

lemma print_shquoted_left_inverse_but_tilde:
  assumes "s = [] \<or> hd s \<noteq> CHR ''~'' \<or> strpbrk s shquote_accept"
  shows "sh_word home (print_shquoted s) = Some s"
proof -
  from print_shquoted_first [OF assms] obtain c cs where
    "print_shquoted s = c # cs" "c \<noteq> CHR ''~''" by blast
  then have "sh_word home (print_shquoted s) = sh_unquoted (print_shquoted s)"
    by (simp add: sh_word_def)
  then show ?thesis by (simp add: print_shquoted_sh_unquoted)
qed

text \<open>
  C7. The code does not have the property for every string. A tilde is not among the
  characters that make \<^verbatim>\<open>print_shquoted\<close> quote, so \<^verbatim>\<open>~root\<close> and \<^verbatim>\<open>~\<close> are written as
  they are, and a shell reading them as one word expands the tilde: it reads back the
  home directory of \<^verbatim>\<open>root\<close>, and the value of \<^verbatim>\<open>HOME\<close>, not the strings. (A string with a
  space, a single quote and a newline, and the empty string, do read back.)
\<close>

theorem print_shquoted_tilde_unquoted:
  "print_shquoted ''~root'' = ''~root'' \<and> sh_word passwd ''~root'' = Some ''/root'' \<and>
   print_shquoted ''~'' = ''~'' \<and> sh_word passwd ''~'' = Some ''/home/user'' \<and>
   sh_word passwd (print_shquoted [CHR ''a'', CHR 0x20, CHR 0x27, CHR 0x0A]) =
     Some [CHR ''a'', CHR 0x20, CHR 0x27, CHR 0x0A] \<and>
   sh_word passwd (print_shquoted []) = Some []"
  by code_simp

section \<open>Ancestry depth\<close>

lemma depth_scan_index: "i \<le> PID_DB_SIZE - 1 \<Longrightarrow> fst (depth_scan db ppid i d) = PID_DB_SIZE - 1"
proof (induction db ppid i d rule: depth_scan.induct)
  case (1 db ppid i d)
  show ?case
  proof (cases "i < PID_DB_SIZE - 1")
    case True
    then show ?thesis using "1.IH" by (subst depth_scan.simps) simp
  next
    case False
    with "1.prems" show ?thesis by (subst depth_scan.simps) simp
  qed
qed

lemma pid_depth_recurse:
  assumes "procs p = Some kp" "p \<noteq> root" "ki_ppid kp \<noteq> root" "ki_ppid kp \<noteq> 0"
  shows "pid_depth procs root db p =
         Option.bind (pid_depth procs root db (ki_ppid kp))
           (\<lambda>r. if fst r = - 1 then Some (- 1, snd r) else Some (fst r + 1, snd r))"
  using assms by (subst pid_depth.simps) (simp add: depth_scan_index)

lemma pid_depth_v1_recurse:
  assumes "procs p = Some kp" "p \<noteq> root" "ki_ppid kp \<noteq> root" "ki_ppid kp \<noteq> 0"
  shows "pid_depth_v1 procs root p =
         Option.bind (pid_depth_v1 procs root (ki_ppid kp))
           (\<lambda>r. if fst r = - 1 then Some (- 1, snd r) else Some (fst r + 1, snd r))"
  using assms by (subst pid_depth_v1.simps) simp

lemma pid_depth_chain:
  "ancestry procs root p k \<Longrightarrow> pid_depth procs root db p = Some (int k, [])"
proof (induction rule: ancestry.induct)
  case (at_root kp)
  then show ?case by (subst pid_depth.simps) simp
next
  case (child p kp)
  then show ?case by (subst pid_depth.simps) simp
next
  case (step p kp k)
  then show ?case by (simp add: pid_depth_recurse)
qed

lemma pid_depth_v1_chain:
  "ancestry procs root p k \<Longrightarrow> pid_depth_v1 procs root p = Some (int k, [])"
proof (induction rule: ancestry.induct)
  case (at_root kp)
  then show ?case by (subst pid_depth_v1.simps) simp
next
  case (child p kp)
  then show ?case by (subst pid_depth_v1.simps) simp
next
  case (step p kp k)
  then show ?case by (simp add: pid_depth_v1_recurse)
qed

lemma pid_depth_lost:
  "out_of_scope procs root p \<Longrightarrow> \<exists>msgs. pid_depth procs root db p = Some (- 1, msgs)"
proof (induction rule: out_of_scope.induct)
  case (gone p)
  then show ?case by (subst pid_depth.simps) simp
next
  case (orphan p kp)
  then show ?case by (subst pid_depth.simps) simp
next
  case (up p kp)
  then show ?case by (auto simp: pid_depth_recurse)
qed

lemma pid_depth_v1_lost:
  "out_of_scope procs root p \<Longrightarrow> \<exists>msgs. pid_depth_v1 procs root p = Some (- 1, msgs)"
proof (induction rule: out_of_scope.induct)
  case (gone p)
  then show ?case by (subst pid_depth_v1.simps) simp
next
  case (orphan p kp)
  then show ?case by (subst pid_depth_v1.simps) simp
next
  case (up p kp)
  then show ?case by (auto simp: pid_depth_v1_recurse)
qed

text \<open>
  C1. For every PID \<open>p\<close> whose parent chain up to the root has \<open>k\<close> hops, every hop
  resolvable, the resolver of either revision returns \<open>k\<close> and writes nothing to
  \<^verbatim>\<open>stderr\<close>: 0 when \<open>p\<close> is the root, 1 when the parent of \<open>p\<close> is the root. When the
  chain reaches a PID whose parent is 0, or a PID whose record cannot be fetched, it
  returns the out-of-scope result \<open>-1\<close>.
\<close>

theorem pid_depth_resolves:
  "(ancestry procs root p k \<longrightarrow>
      pid_depth procs root db p = Some (int k, []) \<and> pid_depth_v1 procs root p = Some (int k, []))
   \<and> (out_of_scope procs root p \<longrightarrow>
      (\<exists>msgs. pid_depth procs root db p = Some (- 1, msgs)) \<and>
      (\<exists>msgs. pid_depth_v1 procs root p = Some (- 1, msgs)))"
  using pid_depth_chain pid_depth_v1_chain pid_depth_lost pid_depth_v1_lost by blast

lemma ex_procs_simps:
  "ex_procs 100 = Some (proc 100 1)" "ex_procs 101 = Some (proc 101 100)"
  "ex_procs 102 = Some (proc 102 101)" "ex_procs 103 = Some (proc 103 102)"
  "ex_procs 200 = Some (proc 200 0)" "ex_procs 201 = Some (proc 201 200)" "ex_procs 300 = None"
  by (simp_all add: ex_procs_def)

lemma ex_ancestry:
  "ancestry ex_procs 100 100 0" "ancestry ex_procs 100 101 1" "ancestry ex_procs 100 103 3"
proof -
  show a0: "ancestry ex_procs 100 100 0"
    by (rule ancestry.at_root [where procs = ex_procs and kp = "proc 100 1"])
      (simp add: ex_procs_simps)
  show a1: "ancestry ex_procs 100 101 1"
    by (rule ancestry.child [where procs = ex_procs and kp = "proc 101 100"])
      (simp_all add: ex_procs_simps proc_def)
  have a2: "ancestry ex_procs 100 102 (Suc 1)"
    using ancestry.step [where procs = ex_procs and kp = "proc 102 101" and p = 102
        and root = 100 and k = 1] a1
    by (simp add: ex_procs_simps proc_def)
  have "ancestry ex_procs 100 103 (Suc (Suc 1))"
    using ancestry.step [where procs = ex_procs and kp = "proc 103 102" and p = 103
        and root = 100 and k = "Suc 1"] a2
    by (simp add: ex_procs_simps proc_def)
  then show "ancestry ex_procs 100 103 3" by (simp add: numeral_3_eq_3)
qed

lemma ex_out_of_scope:
  "out_of_scope ex_procs 100 300" "out_of_scope ex_procs 100 201"
proof -
  show "out_of_scope ex_procs 100 300"
    by (rule out_of_scope.gone [where procs = ex_procs]) (simp add: ex_procs_simps)
  have "out_of_scope ex_procs 100 200"
    by (rule out_of_scope.orphan [where procs = ex_procs and kp = "proc 200 0"])
      (simp_all add: ex_procs_simps proc_def)
  then show "out_of_scope ex_procs 100 201"
    using out_of_scope.up [where procs = ex_procs and kp = "proc 201 200" and p = 201
        and root = 100]
    by (simp add: ex_procs_simps proc_def)
qed

theorem pid_depth_resolves_witness:
  "pid_depth ex_procs 100 (pid_db init_state) 100 = Some (0, [])
   \<and> pid_depth ex_procs 100 (pid_db init_state) 101 = Some (1, [])
   \<and> pid_depth ex_procs 100 (pid_db init_state) 103 = Some (3, [])
   \<and> pid_depth_v1 ex_procs 100 103 = Some (3, [])
   \<and> (\<exists>msgs. pid_depth ex_procs 100 (pid_db init_state) 201 = Some (- 1, msgs))
   \<and> (\<exists>msgs. pid_depth_v1 ex_procs 100 300 = Some (- 1, msgs))"
  using pid_depth_resolves [of ex_procs 100 100 0 "pid_db init_state"]
    pid_depth_resolves [of ex_procs 100 101 1 "pid_db init_state"]
    pid_depth_resolves [of ex_procs 100 103 3 "pid_db init_state"]
    pid_depth_resolves [of ex_procs 100 201 0 "pid_db init_state"]
    pid_depth_resolves [of ex_procs 100 300 0 "pid_db init_state"]
    ex_ancestry ex_out_of_scope
  by simp

section \<open>The table\<close>

lemma find_slot_here:
  "i < PID_DB_SIZE - 1 \<Longrightarrow> pid (db i) = 0 \<or> pid (db i) = p \<Longrightarrow> find_slot db p i = i"
  by (subst find_slot.simps) simp

lemma find_slot_full:
  "i \<le> PID_DB_SIZE - 1 \<Longrightarrow>
   \<forall>j. i \<le> j \<and> j < PID_DB_SIZE - 1 \<longrightarrow> pid (db j) \<noteq> 0 \<and> pid (db j) \<noteq> p \<Longrightarrow>
   find_slot db p i = PID_DB_SIZE - 1"
proof (induction db p i rule: find_slot.induct)
  case (1 db p i)
  show ?case
  proof (cases "i < PID_DB_SIZE - 1")
    case True
    with "1.prems" have "pid (db i) \<noteq> 0" "pid (db i) \<noteq> p" by auto
    moreover have "find_slot db p (i + 1) = PID_DB_SIZE - 1"
      using "1.IH" True "1.prems" calculation by auto
    ultimately show ?thesis using True by (subst find_slot.simps) simp
  next
    case False
    with "1.prems" show ?thesis by (subst find_slot.simps) simp
  qed
qed

lemma exec_ledger_index: "fst (exec_ledger c now kp p d s) = find_slot (pid_db s) p 0"
  by (simp add: exec_ledger_def Let_def)

lemma exec_ledger_frame:
  "j \<noteq> find_slot (pid_db s) p 0 \<Longrightarrow> pid_db (snd (exec_ledger c now kp p d s)) j = pid_db s j"
  by (simp add: exec_ledger_def Let_def)

lemma exec_ledger_stderr:
  "stderr (snd (exec_ledger c now kp p d s)) =
   stderr s @ (if find_slot (pid_db s) p 0 = PID_DB_SIZE - 1
               then [''extrace: warning: pid_db of size %d overflowed''] else [])"
  by (simp add: exec_ledger_def Let_def)

lemma exec_ledger_claim:
  "\<not> (show_exit c \<and> pid (pid_db s (find_slot (pid_db s) p 0)) = p) \<Longrightarrow>
   pid_db (snd (exec_ledger c now kp p d s)) (find_slot (pid_db s) p 0) =
   (pid_db s (find_slot (pid_db s) p 0))\<lparr>pid := p, depth := d, start := ki_start kp\<rparr>"
  by (auto simp: exec_ledger_def Let_def)

lemma exec_line_frame:
  "exec_line c e kp p d pp s = Some s' \<Longrightarrow> j \<noteq> find_slot (pid_db s) p 0 \<Longrightarrow>
   pid_db s' j = pid_db s j"
  by (auto simp: exec_line_def Let_def exec_ledger_index exec_ledger_frame
      split: if_splits list.splits)

lemma handle_exec_frame:
  "handle_exec c e p s = Some s' \<Longrightarrow> j \<noteq> find_slot (pid_db s) p 0 \<Longrightarrow>
   pid_db s' j = pid_db s j"
  by (auto simp: handle_exec_def Let_def split: option.splits if_splits dest: exec_line_frame)

lemma exec_line_returns:
  assumes "show_exit c \<or> \<not> flat c"
  shows "\<exists>s'. exec_line c e kp p d (a # as) s = Some s' \<and>
     stderr s' = stderr (snd (exec_ledger c (exec_now e) kp p d s)) \<and>
     pid (pid_db s' (find_slot (pid_db s) p 0)) =
       pid (pid_db (snd (exec_ledger c (exec_now e) kp p d s)) (find_slot (pid_db s) p 0)) \<and>
     depth (pid_db s' (find_slot (pid_db s) p 0)) =
       depth (pid_db (snd (exec_ledger c (exec_now e) kp p d s)) (find_slot (pid_db s) p 0))"
  using assms by (simp add: exec_line_def Let_def exec_ledger_index)

lemma handle_exec_fetched:
  assumes "pid_depth (getprocs e) (parent c) (pid_db s) p = Some (d, m)" "0 \<le> d"
    "exec_kp e = Some kp" "exec_argv e = Some pp"
  shows "handle_exec c e p s = exec_line c e kp p d pp (s\<lparr>stderr := stderr s @ m\<rparr>)"
  using assms by (simp add: handle_exec_def Let_def)

lemma handle_exec_overflow:
  assumes full: "\<forall>i<PID_DB_SIZE. pid (pid_db s i) \<noteq> 0 \<and> pid (pid_db s i) \<noteq> p"
    and led: "show_exit c \<or> \<not> flat c"
    and dep: "pid_depth (getprocs e) (parent c) (pid_db s) p = Some (d, m)" "0 \<le> d"
    and kp: "exec_kp e = Some kp" and argv: "exec_argv e = Some (a # as)"
  shows "\<exists>s'. handle_exec c e p s = Some s'
      \<and> stderr s' = stderr s @ m @ [''extrace: warning: pid_db of size %d overflowed'']
      \<and> (\<forall>j. j \<noteq> PID_DB_SIZE - 1 \<longrightarrow> pid_db s' j = pid_db s j)
      \<and> pid (pid_db s' (PID_DB_SIZE - 1)) = p \<and> depth (pid_db s' (PID_DB_SIZE - 1)) = d"
proof -
  let ?s0 = "s\<lparr>stderr := stderr s @ m\<rparr>"
  have i: "find_slot (pid_db ?s0) p 0 = PID_DB_SIZE - 1"
    using full by (intro find_slot_full) auto
  have last: "pid (pid_db ?s0 (PID_DB_SIZE - 1)) \<noteq> p"
    using full by (simp add: PID_DB_SIZE_def)
  have h: "handle_exec c e p s = exec_line c e kp p d (a # as) ?s0"
    by (rule handle_exec_fetched [OF dep kp argv])
  from exec_line_returns [OF led, of e kp p d a as ?s0] obtain s' where
    s': "exec_line c e kp p d (a # as) ?s0 = Some s'"
    and e: "stderr s' = stderr (snd (exec_ledger c (exec_now e) kp p d ?s0))"
    and p: "pid (pid_db s' (find_slot (pid_db ?s0) p 0)) =
       pid (pid_db (snd (exec_ledger c (exec_now e) kp p d ?s0)) (find_slot (pid_db ?s0) p 0))"
    and d: "depth (pid_db s' (find_slot (pid_db ?s0) p 0)) =
       depth (pid_db (snd (exec_ledger c (exec_now e) kp p d ?s0)) (find_slot (pid_db ?s0) p 0))"
    by blast
  have c: "pid_db (snd (exec_ledger c (exec_now e) kp p d ?s0)) (find_slot (pid_db ?s0) p 0) =
     (pid_db ?s0 (find_slot (pid_db ?s0) p 0))\<lparr>pid := p, depth := d, start := ki_start kp\<rparr>"
    by (rule exec_ledger_claim) (use i last in simp)
  have "stderr s' = stderr s @ m @ [''extrace: warning: pid_db of size %d overflowed'']"
    using e i by (simp add: exec_ledger_stderr)
  moreover have "\<forall>j. j \<noteq> PID_DB_SIZE - 1 \<longrightarrow> pid_db s' j = pid_db s j"
    using exec_line_frame [OF s'] i by simp
  moreover have "pid (pid_db s' (PID_DB_SIZE - 1)) = p" "depth (pid_db s' (PID_DB_SIZE - 1)) = d"
    using p d c i by simp_all
  ultimately show ?thesis using h s' by simp
qed

text \<open>
  C3 (as amended). When every element of \<^verbatim>\<open>pid_db\<close> is occupied and none holds \<open>p\<close>, an
  exec event for \<open>p\<close> that is in scope (with the table in use, both fetches successful and
  a non-empty argument vector) returns normally; it writes the overflow warning to
  \<^verbatim>\<open>stderr\<close> (on every such event), leaves every element but the last unchanged, and
  overwrites the last element with the entry of \<open>p\<close>.
\<close>

theorem exec_overflow:
  assumes "\<forall>i<PID_DB_SIZE. pid (pid_db s i) \<noteq> 0 \<and> pid (pid_db s i) \<noteq> p"
    and "show_exit c \<or> \<not> flat c"
    and "pid_depth (getprocs e) (parent c) (pid_db s) p = Some (d, m)" "0 \<le> d"
    and "exec_kp e = Some kp" and "exec_argv e = Some (a # as)"
  shows "\<exists>s'. handle_exec c e p s = Some s'
      \<and> stderr s' = stderr s @ m @ [''extrace: warning: pid_db of size %d overflowed'']
      \<and> (\<forall>j. j \<noteq> PID_DB_SIZE - 1 \<longrightarrow> pid_db s' j = pid_db s j)
      \<and> pid (pid_db s' (PID_DB_SIZE - 1)) = p \<and> depth (pid_db s' (PID_DB_SIZE - 1)) = d"
  using assms by (rule handle_exec_overflow)

lemma full_db_full: "\<forall>i<PID_DB_SIZE. pid (pid_db full_state i) \<noteq> 0 \<and> pid (pid_db full_state i) \<noteq> 5"
  by (simp add: full_state_def full_db_def)

lemma depth_6: "pid_depth (getprocs (env_of procs_o 6 [''b''])) (parent cfg_t) db 6 = Some (1, [])"
  by (subst pid_depth.simps) (simp add: env_of_def procs_o_def cfg_t_def proc_def)

lemma depth_5: "pid_depth (getprocs (env_of procs_o 5 [''a''])) (parent cfg_t) db 5 = Some (1, [])"
  by (subst pid_depth.simps) (simp add: env_of_def procs_o_def cfg_t_def proc_def)

theorem exec_overflow_witness:
  "map_option (slot_pid (PID_DB_SIZE - 1)) overflow_run = Some 5 \<and>
   map_option stderr overflow_run = Some [''extrace: warning: pid_db of size %d overflowed'']"
  using exec_overflow [of full_state 5 cfg_t "env_of procs_o 5 [''a'']" 1 "[]" "proc 5 1" "''a''" "[]",
      OF full_db_full _ depth_5]
  by (auto simp: overflow_run_def slot_pid_def cfg_t_def env_of_def procs_o_def full_state_def init_state_def)


text \<open>C3 as stated fails: with all 1024 elements occupied, the exec event for
  PID 5 replaces the occupant 1123 of the last element, and the next overflowing event
  (PID 6) writes the warning a second time.\<close>

theorem overflow_counterexample:
  "slot_pid 1023 full_state = 1123 \<and>
   map_option (slot_pid 1023) overflow_run = Some 5 \<and>
   map_option stderr overflow_run2 =
     Some [''extrace: warning: pid_db of size %d overflowed'',
           ''extrace: warning: pid_db of size %d overflowed'']"
proof -
  have led: "show_exit cfg_t \<or> \<not> flat cfg_t" by (simp add: cfg_t_def)
  have kp5: "exec_kp (env_of procs_o 5 [''a'']) = Some (proc 5 1)"
    and kp6: "exec_kp (env_of procs_o 6 [''b'']) = Some (proc 6 1)"
    by (simp_all add: env_of_def procs_o_def)
  have av5: "exec_argv (env_of procs_o 5 [''a'']) = Some (''a'' # [])"
    and av6: "exec_argv (env_of procs_o 6 [''b'']) = Some (''b'' # [])"
    by (simp_all add: env_of_def)
  from handle_exec_overflow [OF full_db_full led depth_5 _ kp5 av5]
  obtain s1 where r1: "handle_exec cfg_t (env_of procs_o 5 [''a'']) 5 full_state = Some s1"
    and e1: "stderr s1 = stderr full_state @ [] @ [''extrace: warning: pid_db of size %d overflowed'']"
    and f1: "\<forall>j. j \<noteq> PID_DB_SIZE - 1 \<longrightarrow> pid_db s1 j = pid_db full_state j"
    and p1: "pid (pid_db s1 (PID_DB_SIZE - 1)) = 5"
    by auto
  have full1: "\<forall>i<PID_DB_SIZE. pid (pid_db s1 i) \<noteq> 0 \<and> pid (pid_db s1 i) \<noteq> 6"
  proof (intro allI impI)
    fix i assume "i < PID_DB_SIZE"
    show "pid (pid_db s1 i) \<noteq> 0 \<and> pid (pid_db s1 i) \<noteq> 6"
    proof (cases "i = PID_DB_SIZE - 1")
      case True
      then show ?thesis using p1 by simp
    next
      case False
      then have "pid_db s1 i = pid_db full_state i" using f1 by simp
      then show ?thesis by (simp add: full_state_def full_db_def)
    qed
  qed
  from handle_exec_overflow [OF full1 led depth_6 _ kp6 av6]
  obtain s2 where r2: "handle_exec cfg_t (env_of procs_o 6 [''b'']) 6 s1 = Some s2"
    and e2: "stderr s2 = stderr s1 @ [] @ [''extrace: warning: pid_db of size %d overflowed'']"
    by auto
  have "slot_pid 1023 full_state = 1123"
    by (simp add: slot_pid_def full_state_def full_db_def)
  moreover have "map_option (slot_pid 1023) overflow_run = Some 5"
    using r1 p1 by (simp add: overflow_run_def slot_pid_def PID_DB_SIZE_def)
  moreover have "map_option stderr overflow_run2 =
     Some [''extrace: warning: pid_db of size %d overflowed'',
           ''extrace: warning: pid_db of size %d overflowed'']"
    using r1 r2 e1 e2 by (simp add: overflow_run2_def overflow_run_def full_state_def init_state_def)
  ultimately show ?thesis by simp
qed

section \<open>The table as a cache of depths\<close>

lemma pid_depth_20: "pid_depth procs_c 1 db 20 = Some (1, [])"
  by (subst pid_depth.simps) (simp add: procs_c_def proc_def)

lemma pid_depth_21: "pid_depth procs_c 1 db 21 = Some (2, [])"
  using pid_depth_recurse [of procs_c 21 "proc 21 20" 1 db]
  by (simp add: procs_c_def proc_def pid_depth_20 [unfolded procs_c_def proc_def])

lemma pid_depth_31: "pid_depth procs_c 1 db 31 = Some (- 1, [''extrace: kvm_getprocs: %s''])"
proof -
  have "pid_depth procs_c 1 db 30 = Some (- 1, [''extrace: kvm_getprocs: %s''])"
    by (subst pid_depth.simps) (simp add: procs_c_def)
  then show ?thesis
    using pid_depth_recurse [of procs_c 31 "proc 31 30" 1 db]
    by (simp add: procs_c_def proc_def)
qed

lemma pid_depth_21_under_100: "pid_depth procs_c 100 db 21 = Some (- 1, [])"
proof -
  have d1: "pid_depth procs_c 100 db 1 = Some (- 1, [])"
    by (subst pid_depth.simps) (simp add: procs_c_def proc_def)
  have d20: "pid_depth procs_c 100 db 20 = Some (- 1, [])"
    using pid_depth_recurse [of procs_c 20 "proc 20 1" 100 db] d1
    by (simp add: procs_c_def proc_def)
  show ?thesis
    using pid_depth_recurse [of procs_c 21 "proc 21 20" 100 db] d20
    by (simp add: procs_c_def proc_def)
qed

lemma lost_run_output: "map_option output' lost_run = Some []"
proof -
  have "pid_depth (getprocs (env_of procs_c 21 [''ls''])) (parent cfg_p) (pid_db cached_state) 21
      = Some (- 1, [])"
    using pid_depth_21_under_100 by (simp add: env_of_def cfg_p_def)
  then show ?thesis
    by (simp add: lost_run_def handle_exec_def Let_def cached_state_def init_state_def)
qed

text \<open>
  C4. The code does not use the cached depth. The loop that looks the parent up has no
  \<^verbatim>\<open>break\<close>, so it always ends with \<open>i = PID_DB_SIZE - 1\<close> and the recursion is always
  taken. The table holds parent 20 with depth 3. Under the whole-system root the depth of
  its child 21 is 2 (one more than the walk from 20, whose parent is now 1), not 4. Under
  \<^verbatim>\<open>-p 100\<close> the walk from 21 goes through 20 to init and ends at parent 0: the depth is
  out of scope and the exec event of 21 writes no line. The table holds parent 30 with
  depth 3; process 30 is gone, so the depth of its child 31 is out of scope.
\<close>

theorem cached_parent_depth_ignored:
  "pid (cached_db 0) = 20 \<and> depth (cached_db 0) = 3 \<and>
   pid_depth procs_c 1 cached_db 21 = Some (2, []) \<and>
   pid_depth procs_c 100 cached_db 21 = Some (- 1, []) \<and>
   map_option output' lost_run = Some [] \<and>
   pid (cached_db 1) = 30 \<and> depth (cached_db 1) = 3 \<and>
   pid_depth procs_c 1 cached_db 31 = Some (- 1, [''extrace: kvm_getprocs: %s''])"
  using pid_depth_21 pid_depth_21_under_100 pid_depth_31 lost_run_output
  by (simp add: cached_db_def)

section \<open>Fetch failures during exec handling\<close>

lemma handle_exec_fetch_failure:
  assumes "pid_depth (getprocs e) (parent c) (pid_db s) p = Some (d, m)" "0 \<le> d"
    "exec_kp e = None \<or> exec_argv e = None"
  shows "handle_exec c e p s =
     Some (s\<lparr>output' := output' s @ [Chars [CHR 0x0A]],
             stderr := stderr s @ m @
               [if exec_kp e = None then ''kvm_getprocs'' else ''kvm_getargv'']\<rparr>)"
  using assms by (auto simp: handle_exec_def Let_def split: option.splits)

lemma handle_exec_gone:
  assumes "getprocs e p = None"
  shows "handle_exec c e p s = Some (s\<lparr>stderr := stderr s @ [''extrace: kvm_getprocs: %s'']\<rparr>)"
proof -
  have "pid_depth (getprocs e) (parent c) (pid_db s) p = Some (- 1, [''extrace: kvm_getprocs: %s''])"
    using assms by (subst pid_depth.simps) simp
  then show ?thesis by (simp add: handle_exec_def Let_def)
qed

lemma batch_exec_step:
  assumes "filter' (kev ev) = EVFILT_PROC" "fflags (kev ev) AND NOTE_EXIT = 0"
    "fflags (kev ev) AND NOTE_EXEC \<noteq> 0"
    "handle_exec c (ev_env ev) (ident (kev ev)) s = Some s'" "\<not> quit s'"
  shows "batch c (ev # evs) s = batch c evs s'"
  using assms by (simp add: dispatch_event_def EVFILT_PROC_def EVFILT_SIGNAL_def)

lemma handle_msg_fetch_failure:
  assumes "flat c \<or> (\<exists>d m. pid_depth_v1 (getprocs e) (parent c) p = Some (d, m) \<and> 0 \<le> d)"
    "exec_kp e = None \<or> exec_argv e = None"
  shows "\<exists>t'. handle_msg c e p t = Some (Exit 1 t')"
  using assms by (auto simp: handle_msg_def Let_def split: option.splits)

text \<open>
  C5 (as amended). In \<^verbatim>\<open>handle_exec\<close> (part_000), when the depth is resolved and the
  handler's own fetch of the process record or of the argument vector fails, the handler
  writes a newline to the output and a warning to \<^verbatim>\<open>stderr\<close>, changes nothing else and
  returns, and the dispatch loop goes on with the next event. When the record cannot
  be fetched inside \<^verbatim>\<open>pid_depth\<close>, the event is dropped with a line on \<^verbatim>\<open>stderr\<close> and
  no output. In \<^verbatim>\<open>handle_msg\<close> (extrace.c) a failure of either fetch ends the program
  with status 1.
\<close>

theorem exec_fetch_failure:
  "(pid_depth (getprocs e) (parent c) (pid_db s) p = Some (d, m) \<and> 0 \<le> d \<and>
      (exec_kp e = None \<or> exec_argv e = None) \<longrightarrow>
      handle_exec c e p s =
        Some (s\<lparr>output' := output' s @ [Chars [CHR 0x0A]],
                stderr := stderr s @ m @
                  [if exec_kp e = None then ''kvm_getprocs'' else ''kvm_getargv'']\<rparr>)
      \<and> (\<not> quit s \<longrightarrow>
           batch c (exec_event p e # evs) s =
           batch c evs (s\<lparr>output' := output' s @ [Chars [CHR 0x0A]],
                stderr := stderr s @ m @
                  [if exec_kp e = None then ''kvm_getprocs'' else ''kvm_getargv'']\<rparr>)
           \<and> dispatch_loop c ((exec_event p e # evs) # bs) s =
           dispatch_loop c (evs # bs) (s\<lparr>output' := output' s @ [Chars [CHR 0x0A]],
                stderr := stderr s @ m @
                  [if exec_kp e = None then ''kvm_getprocs'' else ''kvm_getargv'']\<rparr>)))
   \<and> (getprocs e p = None \<longrightarrow>
        handle_exec c e p s = Some (s\<lparr>stderr := stderr s @ [''extrace: kvm_getprocs: %s'']\<rparr>))
   \<and> ((flat c \<or> (\<exists>d m. pid_depth_v1 (getprocs e) (parent c) p = Some (d, m) \<and> 0 \<le> d)) \<and>
        (exec_kp e = None \<or> exec_argv e = None) \<longrightarrow>
        (\<exists>t'. handle_msg c e p t = Some (Exit 1 t')))"
proof (intro conjI impI)
  assume a: "pid_depth (getprocs e) (parent c) (pid_db s) p = Some (d, m) \<and> 0 \<le> d \<and>
      (exec_kp e = None \<or> exec_argv e = None)"
  then show h: "handle_exec c e p s =
        Some (s\<lparr>output' := output' s @ [Chars [CHR 0x0A]],
                stderr := stderr s @ m @
                  [if exec_kp e = None then ''kvm_getprocs'' else ''kvm_getargv'']\<rparr>)"
    using handle_exec_fetch_failure by blast
  assume q: "\<not> quit s"
  then show b: "batch c (exec_event p e # evs) s =
           batch c evs (s\<lparr>output' := output' s @ [Chars [CHR 0x0A]],
                stderr := stderr s @ m @
                  [if exec_kp e = None then ''kvm_getprocs'' else ''kvm_getargv'']\<rparr>)"
    using h by (intro batch_exec_step) (simp_all add: exec_event_def NOTE_EXEC_def NOTE_EXIT_def)
  show "dispatch_loop c ((exec_event p e # evs) # bs) s =
           dispatch_loop c (evs # bs) (s\<lparr>output' := output' s @ [Chars [CHR 0x0A]],
                stderr := stderr s @ m @
                  [if exec_kp e = None then ''kvm_getprocs'' else ''kvm_getargv'']\<rparr>)"
  proof -
    have "dispatch_loop c ((exec_event p e # evs) # bs) s =
        (case batch c (exec_event p e # evs) s of
           None \<Rightarrow> None | Some s' \<Rightarrow> dispatch_loop c bs s')"
      using q by (simp del: batch.simps)
    also have "\<dots> = dispatch_loop c (evs # bs) (s\<lparr>output' := output' s @ [Chars [CHR 0x0A]],
                stderr := stderr s @ m @
                  [if exec_kp e = None then ''kvm_getprocs'' else ''kvm_getargv'']\<rparr>)"
      unfolding b using q by (simp del: batch.simps)
    finally show ?thesis .
  qed
next
  assume "getprocs e p = None"
  then show "handle_exec c e p s = Some (s\<lparr>stderr := stderr s @ [''extrace: kvm_getprocs: %s'']\<rparr>)"
    by (rule handle_exec_gone)
next
  assume "(flat c \<or> (\<exists>d m. pid_depth_v1 (getprocs e) (parent c) p = Some (d, m) \<and> 0 \<le> d)) \<and>
        (exec_kp e = None \<or> exec_argv e = None)"
  then show "\<exists>t'. handle_msg c e p t = Some (Exit 1 t')"
    using handle_msg_fetch_failure by blast
qed


theorem exec_fetch_failure_witness:
  "handle_exec cfg_t env_noargv 20 init_state =
     Some (init_state\<lparr>output' := [Chars [CHR 0x0A]], stderr := [''kvm_getargv'']\<rparr>) \<and>
   batch cfg_t [exec_event 20 env_noargv] init_state =
     Some (init_state\<lparr>output' := [Chars [CHR 0x0A]], stderr := [''kvm_getargv'']\<rparr>) \<and>
   handle_exec cfg_t env_gone 20 init_state =
     Some (init_state\<lparr>stderr := [''extrace: kvm_getprocs: %s'']\<rparr>) \<and>
   (\<exists>t'. handle_msg default_config env_noargv 20 \<lparr>output' = [], stderr = []\<rparr> = Some (Exit 1 t'))"
proof -
  have d: "pid_depth (getprocs env_noargv) (parent cfg_t) (pid_db init_state) 20 = Some (1, [])"
    using pid_depth_20 by (simp add: env_noargv_def env_of_def cfg_t_def)
  have d1: "pid_depth_v1 (getprocs env_noargv) (parent default_config) 20 = Some (1, [])"
    by (subst pid_depth_v1.simps)
      (simp add: env_noargv_def env_of_def default_config_def procs_c_def proc_def)
  have f: "exec_argv env_noargv = None" "exec_kp env_noargv \<noteq> None"
    by (simp_all add: env_noargv_def env_of_def procs_c_def)
  have g: "getprocs env_gone 20 = None" by (simp add: env_gone_def env_of_def)
  have q: "\<not> quit init_state" by (simp add: init_state_def)
  have A: "handle_exec cfg_t env_noargv 20 init_state =
      Some (init_state\<lparr>output' := [Chars [CHR 0x0A]], stderr := [''kvm_getargv'']\<rparr>) \<and>
    batch cfg_t [exec_event 20 env_noargv] init_state =
      Some (init_state\<lparr>output' := [Chars [CHR 0x0A]], stderr := [''kvm_getargv'']\<rparr>)"
    using exec_fetch_failure [of env_noargv cfg_t init_state 20 1 "[]" "[]"] d f q
    by (simp add: init_state_def)
  have B: "handle_exec cfg_t env_gone 20 init_state =
      Some (init_state\<lparr>stderr := [''extrace: kvm_getprocs: %s'']\<rparr>)"
    using exec_fetch_failure [of env_gone cfg_t init_state 20] g
    by (simp add: init_state_def)
  have C: "\<exists>t'. handle_msg default_config env_noargv 20 \<lparr>output' = [], stderr = []\<rparr> =
      Some (Exit 1 t')"
    using exec_fetch_failure [where e = env_noargv and c = default_config and p = 20
        and t = "\<lparr>output' = [], stderr = []\<rparr>"] d1 f
    by auto
  show ?thesis using A B C by blast
qed

text \<open>C5 as stated fails: \<^verbatim>\<open>handle_msg\<close> ends the program when \<^verbatim>\<open>kvm_getargv\<close>
  fails, and \<^verbatim>\<open>handle_exec\<close> writes no line when the process record is already gone.\<close>

theorem fetch_failure_counterexample:
  "handle_msg default_config env_noargv 20 \<lparr>output' = [], stderr = []\<rparr> =
     Some (Exit 1 \<lparr>output' = [Pad 2, Dec 20, Chars '' ''], stderr = [''kvm_getargv'']\<rparr>) \<and>
   map_option output' (handle_exec cfg_t env_gone 20 init_state) = Some []"
  by code_simp

section \<open>One entry per PID\<close>

text \<open>
  C2. The code does not keep the invariant. Under \<^verbatim>\<open>extrace -t\<close>, after the events exec
  10, exec 11, exit 10, exec 11, the scan for 11 stops at element 0 (freed by the exit of
  10) before it reaches element 1, so elements 0 and 1 both hold PID 11; the exit of 11
  then frees element 0 only and element 1 keeps PID 11.
\<close>

theorem duplicate_slots_after_exit:
  "map_option (slot_pid 0) dup_run = Some 11 \<and> map_option (slot_pid 1) dup_run = Some 11 \<and>
   map_option (slot_pid 0) leak_run = Some 0 \<and> map_option (slot_pid 1) leak_run = Some 11"
  by code_simp

section \<open>Exit events without an entry\<close>

text \<open>
  C6. The code does not ignore such an event. With the table empty, the exit event for
  PID 99 writes an exit line (with an empty command name); after process 10 has come and
  gone, the exit event for PID 99 writes an exit line with the command name and start time
  left behind by 10.
\<close>

theorem exit_line_for_untracked_pid:
  "output' untracked_exit =
     [Pad 0, Dec 99, Chars ''- '', Chars [CHR 0x27, CHR 0x27], Chars '' exited status='', Dec 0,
      Chars '' time='', Secs \<lparr>tv_sec = 5, tv_usec = 0\<rparr>, Chars [CHR ''s'', CHR 0x0A]] \<and>
   map_option (drop 15 \<circ> output') stale_exit =
     Some [Pad 2, Dec 99, Chars ''- '', Chars ''sh'', Chars '' exited status='', Dec 0,
      Chars '' time='', Secs \<lparr>tv_sec = 4, tv_usec = 0\<rparr>, Chars [CHR ''s'', CHR 0x0A]]"
  by code_simp

section \<open>Startup\<close>









lemma atoi_wrap: "atoi ''4294967297'' = 1" by code_simp
lemma atoi_0: "atoi ''0'' = 0" by code_simp

lemma parse_cmd:
  "w = [] \<or> hd w \<noteq> CHR ''-'' \<Longrightarrow> getopt_loop rv fo c f [] (w # ws) = Parsed c f (w # ws)"
  by (cases w) auto

lemma parse_p_arg:
  "getopt_loop rv fo c f [] (''-p'' # s # rest) = getopt_loop rv fo (c\<lparr>parent := atoi s\<rparr>) f [] rest"
  by simp

lemma parse_p_attached:
  "s \<noteq> [] \<Longrightarrow>
   getopt_loop rv fo c f [] ((''-p'' @ s) # rest) = getopt_loop rv fo (c\<lparr>parent := atoi s\<rparr>) f [] rest"
  by simp








lemma digits_value_no_digit:
  "(case cs of [] \<Rightarrow> False | d # _ \<Rightarrow> isdigit d) = False \<Longrightarrow> digits_value 0 cs = 0"
  by (cases cs) simp_all

lemma strtol10_no_number:
  assumes "\<not> begins_with_number s"
  shows "strtol10 s = 0"
proof (cases "dropWhile isspace s")
  case Nil
  show ?thesis unfolding strtol10_def Nil by simp
next
  case (Cons c cs)
  show ?thesis
  proof (cases "c = CHR ''-'' \<or> c = CHR ''+''")
    case True
    with assms have "(case cs of [] \<Rightarrow> False | d # _ \<Rightarrow> isdigit d) = False"
      unfolding begins_with_number_def Cons by simp
    then have "digits_value 0 cs = 0" by (rule digits_value_no_digit)
    with True show ?thesis unfolding strtol10_def Cons by auto
  next
    case False
    with assms have "\<not> isdigit c" unfolding begins_with_number_def Cons by simp
    with False show ?thesis unfolding strtol10_def Cons by simp
  qed
qed

lemma atoi_no_number: "\<not> begins_with_number s \<Longrightarrow> atoi s = 0"
  by (simp add: atoi_def strtol10_no_number to_int_def)

lemma parse_p_cluster:
  "getopt_loop rv fo c f [CHR ''p''] (s # rest) = getopt_loop rv fo (c\<lparr>parent := atoi s\<rparr>) f [] rest"
  "s \<noteq> [] \<Longrightarrow>
   getopt_loop rv fo c f (CHR ''p'' # s) rest = getopt_loop rv fo (c\<lparr>parent := atoi s\<rparr>) f [] rest"
  by simp_all

lemma startup_parse:
  "startup rv (a0 # args) y =
     (case getopt_loop rv (fopen_ok y) default_config None [] args of
        Usage_error \<Rightarrow> (Exited 1, \<lparr>armed = [], errs = [usage_text rv]\<rparr>)
      | Fopen_failed \<Rightarrow> (Exited 1, \<lparr>armed = [], errs = [''fopen'']\<rparr>)
      | Parsed c f cmd \<Rightarrow>
          if parent c \<noteq> 1 \<and> cmd \<noteq> [] then (Exited 1, \<lparr>armed = [], errs = [usage_text rv]\<rparr>)
          else if kqueue_ret y = - 1 then (Exited 1, \<lparr>armed = [], errs = [''kqueue'']\<rparr>)
          else if \<not> kvm_open_ok y then (Exited 1, \<lparr>armed = [], errs = [''kvm_open'']\<rparr>)
          else if cmd \<noteq> [] then
            (let t1 = \<lparr>armed = [[signal_kevent SIGCHLD]], errs = []\<rparr> in
             if kevent_sigchld y = - 1 then (Exited 1, t1\<lparr>errs := [''kevent'']\<rparr>)
             else if fork_ret y = - 1 then (Exited 1, t1\<lparr>errs := [''fork'']\<rparr>)
             else if fork_ret y = 0 then (Child cmd, t1)
             else arm_scope (c\<lparr>parent := fork_ret y\<rparr>) f y t1)
          else arm_scope c f y \<lparr>armed = [], errs = []\<rparr>)"
  by (simp add: startup_def)

lemma startup_parent_0:
  assumes "getopt_loop rv (fopen_ok y) default_config None [] args = Parsed (c\<lparr>parent := 0\<rparr>) f []"
    "kqueue_ret y \<noteq> - 1" "kvm_open_ok y" "kevent_sigint y \<noteq> - 1" "kevent_parent y \<noteq> - 1"
  shows "startup rv (a0 # args) y =
     (Loop (c\<lparr>parent := 0\<rparr>) f,
      \<lparr>armed =
         [[\<lparr>ident = SIGINT, filter' = EVFILT_SIGNAL, flags = EV_ADD, fflags = 0, data = 0\<rparr>],
          [\<lparr>ident = 0, filter' = EVFILT_PROC, flags = EV_ADD, fflags = NOTE_EXEC OR NOTE_TRACK,
            data = 0\<rparr>]],
       errs = []\<rparr>)"
  unfolding startup_parse assms(1) using assms(2-)
  by (simp add: arm_scope_def Let_def signal_kevent_def parent_kevent_def to_uintptr_def
      SIGINT_def)

text \<open>
  C10 (as amended). When the argument of \<^verbatim>\<open>-p\<close> does not begin with a decimal number,
  \<^verbatim>\<open>atoi\<close> gives 0 and the conversion reports no error: wherever the option is read
  (\<open>pre\<close> stands for options read before it; the argument separate or attached),
  \<^verbatim>\<open>parent\<close> becomes 0 and the whole startup is that of \<^verbatim>\<open>-p 0\<close> in its place. When
  nothing follows the option and the startup calls succeed, nothing is written to
  \<^verbatim>\<open>stderr\<close> and the program registers \<^verbatim>\<open>SIGINT\<close>, arms \<^verbatim>\<open>EV_ADD\<close> of \<^verbatim>\<open>EVFILT_PROC\<close> with
  \<^verbatim>\<open>NOTE_EXEC | NOTE_TRACK\<close> on PID 0 and enters the dispatch loop. When a command
  follows, the program ends with the usage message and status 1, as for \<^verbatim>\<open>-p 0\<close>.
\<close>

theorem p_without_number:
  "\<not> begins_with_number s \<longrightarrow>
     atoi s = 0
     \<and> getopt_loop rv fo c f [CHR ''p''] (s # rest) =
         getopt_loop rv fo (c\<lparr>parent := 0\<rparr>) f [] rest
     \<and> (s \<noteq> [] \<longrightarrow>
          getopt_loop rv fo c f (CHR ''p'' # s) rest =
          getopt_loop rv fo (c\<lparr>parent := 0\<rparr>) f [] rest)
     \<and> ((\<forall>r. getopt_loop rv (fopen_ok y) default_config None [] (pre @ r) =
              getopt_loop rv (fopen_ok y) c f [] r) \<longrightarrow>
          startup rv (a0 # pre @ ''-p'' # s # post) y =
            startup rv (a0 # pre @ ''-p'' # ''0'' # post) y
          \<and> (s \<noteq> [] \<longrightarrow>
               startup rv (a0 # pre @ (''-p'' @ s) # post) y =
               startup rv (a0 # pre @ ''-p0'' # post) y)
          \<and> (kqueue_ret y \<noteq> - 1 \<and> kvm_open_ok y \<and> kevent_sigint y \<noteq> - 1 \<and>
              kevent_parent y \<noteq> - 1 \<longrightarrow>
               startup rv (a0 # pre @ [''-p'', s]) y =
                 (Loop (c\<lparr>parent := 0\<rparr>) f,
                  \<lparr>armed =
                     [[\<lparr>ident = SIGINT, filter' = EVFILT_SIGNAL, flags = EV_ADD, fflags = 0,
                        data = 0\<rparr>],
                      [\<lparr>ident = 0, filter' = EVFILT_PROC, flags = EV_ADD,
                        fflags = NOTE_EXEC OR NOTE_TRACK, data = 0\<rparr>]],
                   errs = []\<rparr>)
               \<and> (s \<noteq> [] \<longrightarrow>
                    startup rv (a0 # pre @ [''-p'' @ s]) y =
                      (Loop (c\<lparr>parent := 0\<rparr>) f,
                       \<lparr>armed =
                          [[\<lparr>ident = SIGINT, filter' = EVFILT_SIGNAL, flags = EV_ADD,
                             fflags = 0, data = 0\<rparr>],
                           [\<lparr>ident = 0, filter' = EVFILT_PROC, flags = EV_ADD,
                             fflags = NOTE_EXEC OR NOTE_TRACK, data = 0\<rparr>]],
                        errs = []\<rparr>)))
          \<and> (w = [] \<or> hd w \<noteq> CHR ''-'' \<longrightarrow>
               startup rv (a0 # pre @ ''-p'' # s # w # ws) y =
                 (Exited 1, \<lparr>armed = [], errs = [usage_text rv]\<rparr>)))"
proof (intro impI conjI)
  assume n: "\<not> begins_with_number s"
  show z: "atoi s = 0" using n by (rule atoi_no_number)
  show "getopt_loop rv fo c f [CHR ''p''] (s # rest) =
         getopt_loop rv fo (c\<lparr>parent := 0\<rparr>) f [] rest"
    unfolding parse_p_cluster(1) z ..
  {
    assume "s \<noteq> []"
    then show "getopt_loop rv fo c f (CHR ''p'' # s) rest =
          getopt_loop rv fo (c\<lparr>parent := 0\<rparr>) f [] rest"
      using z by (simp add: parse_p_cluster(2))
  }
  assume H: "\<forall>r. getopt_loop rv (fopen_ok y) default_config None [] (pre @ r) =
              getopt_loop rv (fopen_ok y) c f [] r"
  have sep: "getopt_loop rv (fopen_ok y) default_config None [] (pre @ ''-p'' # s # r) =
      getopt_loop rv (fopen_ok y) (c\<lparr>parent := 0\<rparr>) f [] r" for r
    using H [rule_format, of "''-p'' # s # r"] z by (simp only: parse_p_arg)
  have sep0: "getopt_loop rv (fopen_ok y) default_config None [] (pre @ ''-p'' # ''0'' # r) =
      getopt_loop rv (fopen_ok y) (c\<lparr>parent := 0\<rparr>) f [] r" for r
    using H [rule_format, of "''-p'' # ''0'' # r"] atoi_0 by (simp only: parse_p_arg)
  have att: "getopt_loop rv (fopen_ok y) default_config None [] (pre @ (''-p'' @ s) # r) =
      getopt_loop rv (fopen_ok y) (c\<lparr>parent := 0\<rparr>) f [] r" if "s \<noteq> []" for r
    using H [rule_format, of "(''-p'' @ s) # r"] z parse_p_attached [OF that] by simp
  have att0: "getopt_loop rv (fopen_ok y) default_config None [] (pre @ ''-p0'' # r) =
      getopt_loop rv (fopen_ok y) (c\<lparr>parent := 0\<rparr>) f [] r" for r
    using H [rule_format, of "''-p0'' # r"] atoi_0 parse_p_attached [of "''0''" rv "fopen_ok y" c f r]
    by simp
  show "startup rv (a0 # pre @ ''-p'' # s # post) y =
            startup rv (a0 # pre @ ''-p'' # ''0'' # post) y"
    by (simp only: startup_parse sep sep0)
  {
    assume ne: "s \<noteq> []"
    show "startup rv (a0 # pre @ (''-p'' @ s) # post) y =
               startup rv (a0 # pre @ ''-p0'' # post) y"
      by (simp only: startup_parse att [OF ne] att0)
  }
  {
    assume ok: "kqueue_ret y \<noteq> - 1 \<and> kvm_open_ok y \<and> kevent_sigint y \<noteq> - 1 \<and>
              kevent_parent y \<noteq> - 1"
    have "getopt_loop rv (fopen_ok y) default_config None [] (pre @ [''-p'', s]) =
        Parsed (c\<lparr>parent := 0\<rparr>) f []"
      using sep [of "[]"] by simp
    then show "startup rv (a0 # pre @ [''-p'', s]) y =
                 (Loop (c\<lparr>parent := 0\<rparr>) f,
                  \<lparr>armed =
                     [[\<lparr>ident = SIGINT, filter' = EVFILT_SIGNAL, flags = EV_ADD, fflags = 0,
                        data = 0\<rparr>],
                      [\<lparr>ident = 0, filter' = EVFILT_PROC, flags = EV_ADD,
                        fflags = NOTE_EXEC OR NOTE_TRACK, data = 0\<rparr>]],
                   errs = []\<rparr>)"
      using ok by (intro startup_parent_0) simp_all
    assume ne: "s \<noteq> []"
    have "getopt_loop rv (fopen_ok y) default_config None [] (pre @ [''-p'' @ s]) =
        Parsed (c\<lparr>parent := 0\<rparr>) f []"
      using att [OF ne, of "[]"] by simp
    then show "startup rv (a0 # pre @ [''-p'' @ s]) y =
                      (Loop (c\<lparr>parent := 0\<rparr>) f,
                       \<lparr>armed =
                          [[\<lparr>ident = SIGINT, filter' = EVFILT_SIGNAL, flags = EV_ADD,
                             fflags = 0, data = 0\<rparr>],
                           [\<lparr>ident = 0, filter' = EVFILT_PROC, flags = EV_ADD,
                             fflags = NOTE_EXEC OR NOTE_TRACK, data = 0\<rparr>]],
                        errs = []\<rparr>)"
      using ok by (intro startup_parent_0) simp_all
  }
  assume w: "w = [] \<or> hd w \<noteq> CHR ''-''"
  have "getopt_loop rv (fopen_ok y) default_config None [] (pre @ ''-p'' # s # w # ws) =
      Parsed (c\<lparr>parent := 0\<rparr>) f (w # ws)"
    using sep [of "w # ws"] parse_cmd [OF w] by simp
  then show "startup rv (a0 # pre @ ''-p'' # s # w # ws) y =
                 (Exited 1, \<lparr>armed = [], errs = [usage_text rv]\<rparr>)"
    by (simp add: startup_parse)
qed


text \<open>C10 at \<^verbatim>\<open>extrace -t -p abc\<close> and \<^verbatim>\<open>extrace -t -pabc\<close> (PID 0 is armed and the loop is
  entered, as for \<^verbatim>\<open>-p 0\<close>), and at \<^verbatim>\<open>extrace -t -p abc ls\<close> (usage message).\<close>

theorem p_without_number_witness:
  "\<not> begins_with_number ''abc'' \<and> atoi ''abc'' = 0 \<and>
   startup Part_000 [''extrace'', ''-t'', ''-p'', ''abc''] sys_ok =
     (Loop \<lparr>parent = 0, flat = False, full_path = False, show_args = True, show_cwd = False,
             show_env = False, show_exit = True\<rparr> None,
      \<lparr>armed =
         [[\<lparr>ident = 2, filter' = - 6, flags = 1, fflags = 0, data = 0\<rparr>],
          [\<lparr>ident = 0, filter' = - 5, flags = 1, fflags = 0x20000001, data = 0\<rparr>]],
       errs = []\<rparr>) \<and>
   startup Part_000 [''extrace'', ''-t'', ''-pabc''] sys_ok =
     startup Part_000 [''extrace'', ''-t'', ''-p'', ''abc''] sys_ok \<and>
   startup Part_000 [''extrace'', ''-t'', ''-p'', ''abc''] sys_ok =
     startup Part_000 [''extrace'', ''-t'', ''-p'', ''0''] sys_ok \<and>
   startup Part_000 [''extrace'', ''-t'', ''-pabc''] sys_ok =
     startup Part_000 [''extrace'', ''-t'', ''-p0''] sys_ok \<and>
   startup Part_000 [''extrace'', ''-t'', ''-p'', ''abc'', ''ls''] sys_ok =
     (Exited 1,
      \<lparr>armed = [], errs = [''Usage: extrace [-deflqt] [-o FILE] [-p PID|CMD...]'']\<rparr>)"
proof -
  have n: "\<not> begins_with_number ''abc''" by code_simp
  have ne: "''abc'' \<noteq> []" by simp
  have pre: "\<forall>r. getopt_loop Part_000 (fopen_ok sys_ok) default_config None [] ([''-t''] @ r) =
      getopt_loop Part_000 (fopen_ok sys_ok) (default_config\<lparr>show_exit := True\<rparr>) None [] r"
    by simp
  have ok: "kqueue_ret sys_ok \<noteq> - 1 \<and> kvm_open_ok sys_ok \<and> kevent_sigint sys_ok \<noteq> - 1 \<and>
      kevent_parent sys_ok \<noteq> - 1"
    by (simp add: sys_ok_def)
  note t = p_without_number [where s = "''abc''" and rv = Part_000 and y = sys_ok
      and pre = "[''-t'']" and c = "default_config\<lparr>show_exit := True\<rparr>" and f = None
      and ?a0.0 = "''extrace''" and post = "[]" and w = "''ls''" and ws = "[]"]
  have z: "atoi ''abc'' = 0" using t n by blast
  have k: "NOTE_EXEC OR NOTE_TRACK = (0x20000001 :: 32 word)" by code_simp
  have "startup Part_000 (''extrace'' # [''-t''] @ [''-p'', ''abc'']) sys_ok =
      (Loop (default_config\<lparr>show_exit := True\<rparr>\<lparr>parent := 0\<rparr>) None,
       \<lparr>armed =
          [[\<lparr>ident = SIGINT, filter' = EVFILT_SIGNAL, flags = EV_ADD, fflags = 0, data = 0\<rparr>],
           [\<lparr>ident = 0, filter' = EVFILT_PROC, flags = EV_ADD,
             fflags = NOTE_EXEC OR NOTE_TRACK, data = 0\<rparr>]],
        errs = []\<rparr>)"
    using t n pre ok by blast
  then have A: "startup Part_000 [''extrace'', ''-t'', ''-p'', ''abc''] sys_ok =
     (Loop \<lparr>parent = 0, flat = False, full_path = False, show_args = True, show_cwd = False,
             show_env = False, show_exit = True\<rparr> None,
      \<lparr>armed =
         [[\<lparr>ident = 2, filter' = - 6, flags = 1, fflags = 0, data = 0\<rparr>],
          [\<lparr>ident = 0, filter' = - 5, flags = 1, fflags = 0x20000001, data = 0\<rparr>]],
       errs = []\<rparr>)"
    by (simp add: default_config_def SIGINT_def EVFILT_SIGNAL_def EV_ADD_def EVFILT_PROC_def k)
  have "startup Part_000 (''extrace'' # [''-t''] @ [''-p'' @ ''abc'']) sys_ok =
      (Loop (default_config\<lparr>show_exit := True\<rparr>\<lparr>parent := 0\<rparr>) None,
       \<lparr>armed =
          [[\<lparr>ident = SIGINT, filter' = EVFILT_SIGNAL, flags = EV_ADD, fflags = 0, data = 0\<rparr>],
           [\<lparr>ident = 0, filter' = EVFILT_PROC, flags = EV_ADD,
             fflags = NOTE_EXEC OR NOTE_TRACK, data = 0\<rparr>]],
        errs = []\<rparr>)"
    using t n ne pre ok by blast
  then have "startup Part_000 [''extrace'', ''-t'', ''-pabc''] sys_ok =
     (Loop \<lparr>parent = 0, flat = False, full_path = False, show_args = True, show_cwd = False,
             show_env = False, show_exit = True\<rparr> None,
      \<lparr>armed =
         [[\<lparr>ident = 2, filter' = - 6, flags = 1, fflags = 0, data = 0\<rparr>],
          [\<lparr>ident = 0, filter' = - 5, flags = 1, fflags = 0x20000001, data = 0\<rparr>]],
       errs = []\<rparr>)"
    by (simp add: default_config_def SIGINT_def EVFILT_SIGNAL_def EV_ADD_def EVFILT_PROC_def k)
  then have B: "startup Part_000 [''extrace'', ''-t'', ''-pabc''] sys_ok =
     startup Part_000 [''extrace'', ''-t'', ''-p'', ''abc''] sys_ok"
    unfolding A .
  have "startup Part_000 (''extrace'' # [''-t''] @ ''-p'' # ''abc'' # []) sys_ok =
      startup Part_000 (''extrace'' # [''-t''] @ ''-p'' # ''0'' # []) sys_ok"
    using t n pre by blast
  then have C: "startup Part_000 [''extrace'', ''-t'', ''-p'', ''abc''] sys_ok =
      startup Part_000 [''extrace'', ''-t'', ''-p'', ''0''] sys_ok"
    by simp
  have "startup Part_000 (''extrace'' # [''-t''] @ (''-p'' @ ''abc'') # []) sys_ok =
      startup Part_000 (''extrace'' # [''-t''] @ ''-p0'' # []) sys_ok"
    using t n ne pre by blast
  then have D: "startup Part_000 [''extrace'', ''-t'', ''-pabc''] sys_ok =
      startup Part_000 [''extrace'', ''-t'', ''-p0''] sys_ok"
    by simp
  have w: "''ls'' = [] \<or> hd ''ls'' \<noteq> CHR ''-''" by simp
  have "startup Part_000 (''extrace'' # [''-t''] @ ''-p'' # ''abc'' # ''ls'' # []) sys_ok =
      (Exited 1, \<lparr>armed = [], errs = [usage_text Part_000]\<rparr>)"
    using t n pre w by blast
  then have E: "startup Part_000 [''extrace'', ''-t'', ''-p'', ''abc'', ''ls''] sys_ok =
     (Exited 1,
      \<lparr>armed = [], errs = [''Usage: extrace [-deflqt] [-o FILE] [-p PID|CMD...]'']\<rparr>)"
    by (simp add: usage_text_def)
  show ?thesis by (intro conjI n z A B C D E)
qed

text \<open>C10 as stated fails when a command follows: \<^verbatim>\<open>extrace -p abc ls\<close> reports an error
  (the usage message, status 1), arms nothing and does not enter the dispatch loop.\<close>

theorem p_abc_with_command_counterexample:
  "atoi ''abc'' = 0 \<and>
   startup Part_000 [''extrace'', ''-p'', ''abc'', ''ls''] sys_ok =
     (Exited 1,
      \<lparr>armed = [], errs = [''Usage: extrace [-deflqt] [-o FILE] [-p PID|CMD...]'']\<rparr>) \<and>
   startup Extrace_c [''extrace'', ''-p'', ''abc'', ''ls''] sys_ok =
     (Exited 1,
      \<lparr>armed = [], errs = [''Usage: extrace [-deflq] [-o FILE] [-p PID|CMD...]'']\<rparr>)"
  by code_simp


end
